theory Spec2Isabelle
  imports Complex_Main "HOL-Library.Monad_Syntax"
begin

section \<open>Prompt builder: the action layer over the relational store\<close>

text \<open>
  The development embeds the action handlers of the prompt builder (collections,
  templates and variables of a user) and the two ownership resolvers they share.
  The store is explicit state: three tables, each a list of rows in insertion order,
  and the list of statements issued so far. Every handler takes the store and returns
  its outcome together with the store it leaves behind, also when it fails.
\<close>

subsection \<open>Failures\<close>

text \<open>
  \<open>ActionError\<close> carries the code and the message of the source. \<open>VALIDATION\<close> is the
  failure of the input schema, raised by the action wrapper before the handler runs.
  \<open>CONSTRAINT\<close> is the store refusing an insert: its primary key is already taken,
  or a column that references another table names no row there. It is the store's
  own error, not an \<open>ActionError\<close> of the handlers.
\<close>

datatype code = UNAUTHORIZED | NOT_FOUND | FORBIDDEN

datatype error = ActionError code string | VALIDATION | CONSTRAINT

subsection \<open>Request values and the input schemas\<close>

text \<open>
  An input arrives as an untyped value. Numbers are rationals here; the only number
  schema of the source, \<open>z.number().int()\<close>, accepts the integral ones.
\<close>

datatype jsval =
    JUndefined
  | JNull
  | JBool bool
  | JNum rat
  | JStr string
  | JArr "jsval list"
  | JObj "(string \<times> jsval) list"

text \<open>Reading a property: an absent key, and any property of a non-object, is undefined.\<close>

definition field :: "string \<Rightarrow> jsval \<Rightarrow> jsval" where
  "field k v =
     (case v of
        JObj kvs \<Rightarrow> (case map_of kvs k of None \<Rightarrow> JUndefined | Some x \<Rightarrow> x)
      | _ \<Rightarrow> JUndefined)"

definition is_object :: "jsval \<Rightarrow> bool" where
  "is_object v = (case v of JObj kvs \<Rightarrow> True | _ \<Rightarrow> False)"

text \<open>
  A schema returns \<open>None\<close> when the value is rejected. An optional schema returns
  \<open>Some None\<close> for undefined.
\<close>

definition z_string :: "jsval \<Rightarrow> string option" where
  "z_string v = (case v of JStr s \<Rightarrow> Some s | _ \<Rightarrow> None)"

definition z_string_min1 :: "jsval \<Rightarrow> string option" where
  "z_string_min1 v = (case v of JStr s \<Rightarrow> (if 1 \<le> length s then Some s else None) | _ \<Rightarrow> None)"

definition z_boolean :: "jsval \<Rightarrow> bool option" where
  "z_boolean v = (case v of JBool b \<Rightarrow> Some b | _ \<Rightarrow> None)"

definition z_number_int :: "jsval \<Rightarrow> rat option" where
  "z_number_int v =
     (case v of JNum r \<Rightarrow> (if of_int (floor r) = r then Some r else None) | _ \<Rightarrow> None)"

definition z_optional :: "(jsval \<Rightarrow> 'a option) \<Rightarrow> jsval \<Rightarrow> 'a option option" where
  "z_optional sch v = (case v of JUndefined \<Rightarrow> Some None | _ \<Rightarrow> map_option Some (sch v))"

definition z_default :: "(jsval \<Rightarrow> 'a option) \<Rightarrow> 'a \<Rightarrow> jsval \<Rightarrow> 'a option" where
  "z_default sch d v = (case v of JUndefined \<Rightarrow> Some d | _ \<Rightarrow> sch v)"

subsection \<open>The tables\<close>

type_synonym date = int

record collection_row =
  c_id :: string
  c_userId :: string
  c_name :: string
  c_description :: "string option"
  c_icon :: "string option"
  c_isDefault :: bool
  c_createdAt :: date
  c_updatedAt :: date

record template_row =
  t_id :: string
  t_collectionId :: "string option"
  t_userId :: string
  t_name :: string
  t_description :: "string option"
  t_modelHint :: "string option"
  t_promptBody :: string
  t_tags :: "string option"
  t_isFavorite :: bool
  t_isSystem :: bool
  t_createdAt :: date
  t_updatedAt :: date

record variable_row =
  v_id :: string
  v_templateId :: string
  v_name :: string
  v_label :: "string option"
  v_description :: "string option"
  v_inputType :: "string option"
  v_defaultValue :: "string option"
  v_optionsJson :: "string option"
  v_orderIndex :: "rat option"
  v_createdAt :: date

datatype table = Collections | Templates | Variables

datatype statement = SELECT table | INSERT table | UPDATE table | DELETE table

record db =
  PromptCollections :: "collection_row list"
  PromptTemplates :: "template_row list"
  PromptVariables :: "variable_row list"
  statements :: "statement list"

text \<open>Every query goes through \<open>issue\<close>, which records the statement.\<close>

definition issue :: "statement \<Rightarrow> db \<Rightarrow> db" where
  "issue q s = s\<lparr>statements := statements s @ [q]\<rparr>"

text \<open>The destructuring \<open>const [row] = rows\<close>: the first row, or undefined.\<close>

definition first_row :: "'r list \<Rightarrow> 'r option" where
  "first_row rows = (case rows of [] \<Rightarrow> None | r # _ \<Rightarrow> Some r)"

text \<open>
  \<open>update ... set ... where ... returning\<close>: the rows matching the condition are
  rewritten in place, and the rewritten rows are returned.
\<close>

definition update_where :: "('r \<Rightarrow> bool) \<Rightarrow> ('r \<Rightarrow> 'r) \<Rightarrow> 'r list \<Rightarrow> 'r list \<times> 'r list" where
  "update_where p f rows = (map (\<lambda>r. if p r then f r else r) rows, map f (filter p rows))"

text \<open>\<open>delete ... where\<close>: the remaining rows and the number of rows affected.\<close>

definition delete_where :: "('r \<Rightarrow> bool) \<Rightarrow> 'r list \<Rightarrow> 'r list \<times> nat" where
  "delete_where p rows = (filter (\<lambda>r. \<not> p r) rows, length (filter p rows))"

text \<open>
  \<open>insert ... returning\<close>: the id column is the primary key of each table, so a row
  whose id is taken is refused. A row is refused as well when a column declared with
  \<open>references\<close> holds a value that is the id of no row of the referenced table;
  \<open>references_ok\<close> is that test, made by the caller on the referenced table. Otherwise
  the row is appended and returned.
\<close>

definition insert_row ::
  "('r \<Rightarrow> string) \<Rightarrow> bool \<Rightarrow> 'r \<Rightarrow> 'r list \<Rightarrow> ('r list \<times> 'r list) option" where
  "insert_row key references_ok r rows =
     (if key r \<in> set (map key rows) \<or> \<not> references_ok then None
      else Some (rows @ [r], [r]))"

text \<open>The primary keys of a store are unique.\<close>

definition keys_ok :: "db \<Rightarrow> bool" where
  "keys_ok s \<longleftrightarrow>
     distinct (map c_id (PromptCollections s)) \<and>
     distinct (map t_id (PromptTemplates s)) \<and>
     distinct (map v_id (PromptVariables s))"

subsection \<open>The caller\<close>

datatype user = User (user_id: string)

record locals =
  user :: "user option"

record ActionAPIContext =
  locals :: "locals option"

definition requireUser :: "ActionAPIContext \<Rightarrow> error + user" where
  "requireUser ctx =
     (case (case locals ctx of None \<Rightarrow> None | Some l \<Rightarrow> user l) of
        None \<Rightarrow> Inl (ActionError UNAUTHORIZED ''You must be signed in to perform this action.'')
      | Some u \<Rightarrow> Inr u)"

subsection \<open>Statements on the three tables\<close>

definition select_collections :: "(collection_row \<Rightarrow> bool) \<Rightarrow> db \<Rightarrow> collection_row list \<times> db" where
  "select_collections p s = (filter p (PromptCollections s), issue (SELECT Collections) s)"

definition select_templates :: "(template_row \<Rightarrow> bool) \<Rightarrow> db \<Rightarrow> template_row list \<times> db" where
  "select_templates p s = (filter p (PromptTemplates s), issue (SELECT Templates) s)"

definition select_variables :: "(variable_row \<Rightarrow> bool) \<Rightarrow> db \<Rightarrow> variable_row list \<times> db" where
  "select_variables p s = (filter p (PromptVariables s), issue (SELECT Variables) s)"

definition insert_collection :: "collection_row \<Rightarrow> db \<Rightarrow> (error + collection_row list) \<times> db" where
  "insert_collection r s =
     (case insert_row c_id True r (PromptCollections s) of
        None \<Rightarrow> (Inl CONSTRAINT, issue (INSERT Collections) s)
      | Some (rows, returned) \<Rightarrow>
          (Inr returned, (issue (INSERT Collections) s)\<lparr>PromptCollections := rows\<rparr>))"

text \<open>
  The collectionId of a template references the id of a collection and may be null;
  the templateId of a variable references the id of a template.
\<close>

definition collection_exists :: "string option \<Rightarrow> db \<Rightarrow> bool" where
  "collection_exists ref s =
     (case ref of None \<Rightarrow> True | Some c \<Rightarrow> c \<in> set (map c_id (PromptCollections s)))"

definition template_exists :: "string \<Rightarrow> db \<Rightarrow> bool" where
  "template_exists ref s \<longleftrightarrow> ref \<in> set (map t_id (PromptTemplates s))"

definition insert_template :: "template_row \<Rightarrow> db \<Rightarrow> (error + template_row list) \<times> db" where
  "insert_template r s =
     (case insert_row t_id (collection_exists (t_collectionId r) s) r (PromptTemplates s) of
        None \<Rightarrow> (Inl CONSTRAINT, issue (INSERT Templates) s)
      | Some (rows, returned) \<Rightarrow>
          (Inr returned, (issue (INSERT Templates) s)\<lparr>PromptTemplates := rows\<rparr>))"

definition insert_variable :: "variable_row \<Rightarrow> db \<Rightarrow> (error + variable_row list) \<times> db" where
  "insert_variable r s =
     (case insert_row v_id (template_exists (v_templateId r) s) r (PromptVariables s) of
        None \<Rightarrow> (Inl CONSTRAINT, issue (INSERT Variables) s)
      | Some (rows, returned) \<Rightarrow>
          (Inr returned, (issue (INSERT Variables) s)\<lparr>PromptVariables := rows\<rparr>))"

text \<open>
  Referential integrity of a store: every reference names a row. The inserts keep it by
  refusing a row that would break it. An update assigns a reference only in
  \<open>updateTemplate\<close>, and only the id of a collection the handler has just read, so
  \<open>update_templates\<close> never meets the case the store would refuse; no statement
  deletes a collection or a template.
\<close>

definition references_hold :: "db \<Rightarrow> bool" where
  "references_hold s \<longleftrightarrow>
     (\<forall>t\<in>set (PromptTemplates s). collection_exists (t_collectionId t) s) \<and>
     (\<forall>v\<in>set (PromptVariables s). template_exists (v_templateId v) s)"

definition update_collections ::
  "(collection_row \<Rightarrow> bool) \<Rightarrow> (collection_row \<Rightarrow> collection_row) \<Rightarrow> db \<Rightarrow> collection_row list \<times> db" where
  "update_collections p f s =
     (case update_where p f (PromptCollections s) of
        (rows, returned) \<Rightarrow> (returned, (issue (UPDATE Collections) s)\<lparr>PromptCollections := rows\<rparr>))"

definition update_templates ::
  "(template_row \<Rightarrow> bool) \<Rightarrow> (template_row \<Rightarrow> template_row) \<Rightarrow> db \<Rightarrow> template_row list \<times> db" where
  "update_templates p f s =
     (case update_where p f (PromptTemplates s) of
        (rows, returned) \<Rightarrow> (returned, (issue (UPDATE Templates) s)\<lparr>PromptTemplates := rows\<rparr>))"

definition update_variables ::
  "(variable_row \<Rightarrow> bool) \<Rightarrow> (variable_row \<Rightarrow> variable_row) \<Rightarrow> db \<Rightarrow> variable_row list \<times> db" where
  "update_variables p f s =
     (case update_where p f (PromptVariables s) of
        (rows, returned) \<Rightarrow> (returned, (issue (UPDATE Variables) s)\<lparr>PromptVariables := rows\<rparr>))"

definition delete_variables :: "(variable_row \<Rightarrow> bool) \<Rightarrow> db \<Rightarrow> nat \<times> db" where
  "delete_variables p s =
     (case delete_where p (PromptVariables s) of
        (rows, rowsAffected) \<Rightarrow> (rowsAffected, (issue (DELETE Variables) s)\<lparr>PromptVariables := rows\<rparr>))"

subsection \<open>Ownership resolvers\<close>

definition getOwnedCollection :: "string \<Rightarrow> string \<Rightarrow> db \<Rightarrow> (error + collection_row) \<times> db" where
  "getOwnedCollection collectionId userId s =
     (case select_collections (\<lambda>r. c_id r = collectionId \<and> c_userId r = userId) s of
        (rows, s1) \<Rightarrow>
          (case first_row rows of
             None \<Rightarrow> (Inl (ActionError NOT_FOUND ''Collection not found.''), s1)
           | Some collection \<Rightarrow> (Inr collection, s1)))"

definition getOwnedTemplate :: "string \<Rightarrow> string \<Rightarrow> db \<Rightarrow> (error + template_row) \<times> db" where
  "getOwnedTemplate templateId userId s =
     (case select_templates (\<lambda>r. t_id r = templateId) s of
        (rows, s1) \<Rightarrow>
          (case first_row rows of
             None \<Rightarrow> (Inl (ActionError NOT_FOUND ''Template not found.''), s1)
           | Some template \<Rightarrow>
               if t_userId template \<noteq> userId
               then (Inl (ActionError FORBIDDEN ''You do not have access to this template.''), s1)
               else (Inr template, s1)))"

subsection \<open>Collections\<close>

text \<open>
  Each action is an input schema and a handler: the request is parsed by the schema,
  and the handler runs on the parsed input only when the schema accepts the request.
  An optional field of the parsed input is \<open>None\<close> when it is undefined.
\<close>

record createCollection_input =
  cc_name :: string
  cc_description :: "string option"
  cc_icon :: "string option"
  cc_isDefault :: "bool option"

definition createCollection_schema :: "jsval \<Rightarrow> createCollection_input option" where
  "createCollection_schema v =
     (if \<not> is_object v then None
      else do {
        n \<leftarrow> z_string_min1 (field ''name'' v);
        d \<leftarrow> z_optional z_string (field ''description'' v);
        i \<leftarrow> z_optional z_string (field ''icon'' v);
        b \<leftarrow> z_optional z_boolean (field ''isDefault'' v);
        Some \<lparr>cc_name = n, cc_description = d, cc_icon = i, cc_isDefault = b\<rparr>
      })"

text \<open>
  The handlers take what the source draws from outside: \<open>uuid\<close> is the value of
  \<open>crypto.randomUUID()\<close>, \<open>now\<close> the value of \<open>new Date()\<close>.
\<close>

definition createCollection_handler ::
  "createCollection_input \<Rightarrow> ActionAPIContext \<Rightarrow> string \<Rightarrow> date \<Rightarrow> db
     \<Rightarrow> (error + collection_row option) \<times> db" where
  "createCollection_handler input ctx uuid now s =
     (case requireUser ctx of
        Inl e \<Rightarrow> (Inl e, s)
      | Inr u \<Rightarrow>
          (case insert_collection
                  \<lparr>c_id = uuid, c_userId = user_id u, c_name = cc_name input,
                   c_description = cc_description input, c_icon = cc_icon input,
                   c_isDefault = (case cc_isDefault input of None \<Rightarrow> False | Some b \<Rightarrow> b),
                   c_createdAt = now, c_updatedAt = now\<rparr> s of
             (Inl e, s1) \<Rightarrow> (Inl e, s1)
           | (Inr returned, s1) \<Rightarrow> (Inr (first_row returned), s1)))"

definition createCollection ::
  "jsval \<Rightarrow> ActionAPIContext \<Rightarrow> string \<Rightarrow> date \<Rightarrow> db \<Rightarrow> (error + collection_row option) \<times> db" where
  "createCollection raw ctx uuid now s =
     (case createCollection_schema raw of
        None \<Rightarrow> (Inl VALIDATION, s)
      | Some input \<Rightarrow> createCollection_handler input ctx uuid now s)"

record updateCollection_input =
  uc_id :: string
  uc_name :: "string option"
  uc_description :: "string option"
  uc_icon :: "string option"
  uc_isDefault :: "bool option"

definition updateCollection_schema :: "jsval \<Rightarrow> updateCollection_input option" where
  "updateCollection_schema v =
     (if \<not> is_object v then None
      else do {
        i \<leftarrow> z_string_min1 (field ''id'' v);
        n \<leftarrow> z_optional z_string_min1 (field ''name'' v);
        d \<leftarrow> z_optional z_string (field ''description'' v);
        ic \<leftarrow> z_optional z_string (field ''icon'' v);
        b \<leftarrow> z_optional z_boolean (field ''isDefault'' v);
        if n \<noteq> None \<or> d \<noteq> None \<or> ic \<noteq> None \<or> b \<noteq> None
        then Some \<lparr>uc_id = i, uc_name = n, uc_description = d, uc_icon = ic, uc_isDefault = b\<rparr>
        else None
      })"

text \<open>The set clause: a column is assigned only when its field is defined.\<close>

definition updateCollection_set :: "updateCollection_input \<Rightarrow> date \<Rightarrow> collection_row \<Rightarrow> collection_row" where
  "updateCollection_set input now r =
     r\<lparr>c_name := (case uc_name input of None \<Rightarrow> c_name r | Some n \<Rightarrow> n),
       c_description := (case uc_description input of None \<Rightarrow> c_description r | Some d \<Rightarrow> Some d),
       c_icon := (case uc_icon input of None \<Rightarrow> c_icon r | Some i \<Rightarrow> Some i),
       c_isDefault := (case uc_isDefault input of None \<Rightarrow> c_isDefault r | Some b \<Rightarrow> b),
       c_updatedAt := now\<rparr>"

definition updateCollection_handler ::
  "updateCollection_input \<Rightarrow> ActionAPIContext \<Rightarrow> date \<Rightarrow> db \<Rightarrow> (error + collection_row option) \<times> db" where
  "updateCollection_handler input ctx now s =
     (case requireUser ctx of
        Inl e \<Rightarrow> (Inl e, s)
      | Inr u \<Rightarrow>
          (case getOwnedCollection (uc_id input) (user_id u) s of
             (Inl e, s1) \<Rightarrow> (Inl e, s1)
           | (Inr owned, s1) \<Rightarrow>
               (case update_collections (\<lambda>r. c_id r = uc_id input)
                                        (updateCollection_set input now) s1 of
                  (returned, s2) \<Rightarrow> (Inr (first_row returned), s2))))"

definition updateCollection ::
  "jsval \<Rightarrow> ActionAPIContext \<Rightarrow> date \<Rightarrow> db \<Rightarrow> (error + collection_row option) \<times> db" where
  "updateCollection raw ctx now s =
     (case updateCollection_schema raw of
        None \<Rightarrow> (Inl VALIDATION, s)
      | Some input \<Rightarrow> updateCollection_handler input ctx now s)"

text \<open>The input of the two unfiltered listings is an optional object.\<close>

definition listCollections_schema :: "jsval \<Rightarrow> unit option" where
  "listCollections_schema v = (if v = JUndefined \<or> is_object v then Some () else None)"

definition listCollections_handler ::
  "ActionAPIContext \<Rightarrow> db \<Rightarrow> (error + collection_row list \<times> nat) \<times> db" where
  "listCollections_handler ctx s =
     (case requireUser ctx of
        Inl e \<Rightarrow> (Inl e, s)
      | Inr u \<Rightarrow>
          (case select_collections (\<lambda>r. c_userId r = user_id u) s of
             (collections, s1) \<Rightarrow> (Inr (collections, length collections), s1)))"

definition listCollections ::
  "jsval \<Rightarrow> ActionAPIContext \<Rightarrow> db \<Rightarrow> (error + collection_row list \<times> nat) \<times> db" where
  "listCollections raw ctx s =
     (case listCollections_schema raw of
        None \<Rightarrow> (Inl VALIDATION, s)
      | Some _ \<Rightarrow> listCollections_handler ctx s)"

subsection \<open>Templates\<close>

record createTemplate_input =
  ct_collectionId :: "string option"
  ct_name :: string
  ct_description :: "string option"
  ct_modelHint :: "string option"
  ct_promptBody :: string
  ct_tags :: "string option"
  ct_isFavorite :: "bool option"

definition createTemplate_schema :: "jsval \<Rightarrow> createTemplate_input option" where
  "createTemplate_schema v =
     (if \<not> is_object v then None
      else do {
        c \<leftarrow> z_optional z_string (field ''collectionId'' v);
        n \<leftarrow> z_string_min1 (field ''name'' v);
        d \<leftarrow> z_optional z_string (field ''description'' v);
        m \<leftarrow> z_optional z_string (field ''modelHint'' v);
        p \<leftarrow> z_string_min1 (field ''promptBody'' v);
        t \<leftarrow> z_optional z_string (field ''tags'' v);
        f \<leftarrow> z_optional z_boolean (field ''isFavorite'' v);
        Some \<lparr>ct_collectionId = c, ct_name = n, ct_description = d, ct_modelHint = m,
              ct_promptBody = p, ct_tags = t, ct_isFavorite = f\<rparr>
      })"

text \<open>
  The guard \<open>if (input.collectionId)\<close> tests truthiness: undefined is falsy, and a
  string is truthy when it is not empty. The inserted value
  \<open>input.collectionId ?? null\<close> is the field itself whenever it is defined.
\<close>

definition truthy :: "string \<Rightarrow> bool" where
  "truthy str \<longleftrightarrow> str \<noteq> []"

definition createTemplate_handler ::
  "createTemplate_input \<Rightarrow> ActionAPIContext \<Rightarrow> string \<Rightarrow> date \<Rightarrow> db
     \<Rightarrow> (error + template_row option) \<times> db" where
  "createTemplate_handler input ctx uuid now s =
     (case requireUser ctx of
        Inl e \<Rightarrow> (Inl e, s)
      | Inr u \<Rightarrow>
          (case (case ct_collectionId input of
                   None \<Rightarrow> (Inr (), s)
                 | Some c \<Rightarrow>
                     if truthy c
                     then (case getOwnedCollection c (user_id u) s of
                             (Inl e, s1) \<Rightarrow> (Inl e, s1)
                           | (Inr owned, s1) \<Rightarrow> (Inr (), s1))
                     else (Inr (), s)) of
             (Inl e, s1) \<Rightarrow> (Inl e, s1)
           | (Inr _, s1) \<Rightarrow>
               (case insert_template
                       \<lparr>t_id = uuid, t_collectionId = ct_collectionId input,
                        t_userId = user_id u, t_name = ct_name input,
                        t_description = ct_description input, t_modelHint = ct_modelHint input,
                        t_promptBody = ct_promptBody input, t_tags = ct_tags input,
                        t_isFavorite = (case ct_isFavorite input of None \<Rightarrow> False | Some b \<Rightarrow> b),
                        t_isSystem = False, t_createdAt = now, t_updatedAt = now\<rparr> s1 of
                  (Inl e, s2) \<Rightarrow> (Inl e, s2)
                | (Inr returned, s2) \<Rightarrow> (Inr (first_row returned), s2))))"

definition createTemplate ::
  "jsval \<Rightarrow> ActionAPIContext \<Rightarrow> string \<Rightarrow> date \<Rightarrow> db \<Rightarrow> (error + template_row option) \<times> db" where
  "createTemplate raw ctx uuid now s =
     (case createTemplate_schema raw of
        None \<Rightarrow> (Inl VALIDATION, s)
      | Some input \<Rightarrow> createTemplate_handler input ctx uuid now s)"

text \<open>
  The update handler compares \<open>collectionId\<close> with both undefined and null, so its
  input keeps the three cases apart.
\<close>

datatype 'a nullable = Undefined | Null | Defined 'a

record updateTemplate_input =
  ut_id :: string
  ut_collectionId :: "string nullable"
  ut_name :: "string option"
  ut_description :: "string option"
  ut_modelHint :: "string option"
  ut_promptBody :: "string option"
  ut_tags :: "string option"
  ut_isFavorite :: "bool option"

definition updateTemplate_schema :: "jsval \<Rightarrow> updateTemplate_input option" where
  "updateTemplate_schema v =
     (if \<not> is_object v then None
      else do {
        i \<leftarrow> z_string_min1 (field ''id'' v);
        c \<leftarrow> z_optional z_string (field ''collectionId'' v);
        n \<leftarrow> z_optional z_string (field ''name'' v);
        d \<leftarrow> z_optional z_string (field ''description'' v);
        m \<leftarrow> z_optional z_string (field ''modelHint'' v);
        p \<leftarrow> z_optional z_string (field ''promptBody'' v);
        t \<leftarrow> z_optional z_string (field ''tags'' v);
        f \<leftarrow> z_optional z_boolean (field ''isFavorite'' v);
        if c \<noteq> None \<or> n \<noteq> None \<or> d \<noteq> None \<or> m \<noteq> None \<or> p \<noteq> None \<or> t \<noteq> None \<or> f \<noteq> None
        then Some \<lparr>ut_id = i,
                   ut_collectionId = (case c of None \<Rightarrow> Undefined | Some x \<Rightarrow> Defined x),
                   ut_name = n, ut_description = d, ut_modelHint = m, ut_promptBody = p,
                   ut_tags = t, ut_isFavorite = f\<rparr>
        else None
      })"

definition updateTemplate_set :: "updateTemplate_input \<Rightarrow> date \<Rightarrow> template_row \<Rightarrow> template_row" where
  "updateTemplate_set input now r =
     r\<lparr>t_collectionId :=
         (case ut_collectionId input of
            Undefined \<Rightarrow> t_collectionId r | Null \<Rightarrow> None | Defined c \<Rightarrow> Some c),
       t_name := (case ut_name input of None \<Rightarrow> t_name r | Some n \<Rightarrow> n),
       t_description := (case ut_description input of None \<Rightarrow> t_description r | Some d \<Rightarrow> Some d),
       t_modelHint := (case ut_modelHint input of None \<Rightarrow> t_modelHint r | Some m \<Rightarrow> Some m),
       t_promptBody := (case ut_promptBody input of None \<Rightarrow> t_promptBody r | Some p \<Rightarrow> p),
       t_tags := (case ut_tags input of None \<Rightarrow> t_tags r | Some t \<Rightarrow> Some t),
       t_isFavorite := (case ut_isFavorite input of None \<Rightarrow> t_isFavorite r | Some b \<Rightarrow> b),
       t_updatedAt := now\<rparr>"

definition updateTemplate_handler ::
  "updateTemplate_input \<Rightarrow> ActionAPIContext \<Rightarrow> date \<Rightarrow> db \<Rightarrow> (error + template_row option) \<times> db" where
  "updateTemplate_handler input ctx now s =
     (case requireUser ctx of
        Inl e \<Rightarrow> (Inl e, s)
      | Inr u \<Rightarrow>
          (case getOwnedTemplate (ut_id input) (user_id u) s of
             (Inl e, s1) \<Rightarrow> (Inl e, s1)
           | (Inr template, s1) \<Rightarrow>
               (case (case ut_collectionId input of
                        Defined c \<Rightarrow>
                          (case getOwnedCollection c (user_id u) s1 of
                             (Inl e, s2) \<Rightarrow> (Inl e, s2)
                           | (Inr owned, s2) \<Rightarrow> (Inr (), s2))
                      | _ \<Rightarrow> (Inr (), s1)) of
                  (Inl e, s2) \<Rightarrow> (Inl e, s2)
                | (Inr _, s2) \<Rightarrow>
                    (case update_templates (\<lambda>r. t_id r = ut_id input)
                                           (updateTemplate_set input now) s2 of
                       (returned, s3) \<Rightarrow> (Inr (first_row returned), s3)))))"

definition updateTemplate ::
  "jsval \<Rightarrow> ActionAPIContext \<Rightarrow> date \<Rightarrow> db \<Rightarrow> (error + template_row option) \<times> db" where
  "updateTemplate raw ctx now s =
     (case updateTemplate_schema raw of
        None \<Rightarrow> (Inl VALIDATION, s)
      | Some input \<Rightarrow> updateTemplate_handler input ctx now s)"

text \<open>
  The listing's input is an optional object whose \<open>favoritesOnly\<close> defaults to false;
  the handler reads \<open>input?.favoritesOnly ?? false\<close>.
\<close>

definition listTemplates_schema :: "jsval \<Rightarrow> bool option option" where
  "listTemplates_schema v =
     (if v = JUndefined then Some None
      else if \<not> is_object v then None
      else map_option Some (z_default z_boolean False (field ''favoritesOnly'' v)))"

definition listTemplates_handler ::
  "bool option \<Rightarrow> ActionAPIContext \<Rightarrow> db \<Rightarrow> (error + template_row list \<times> nat) \<times> db" where
  "listTemplates_handler input ctx s =
     (case requireUser ctx of
        Inl e \<Rightarrow> (Inl e, s)
      | Inr u \<Rightarrow>
          (let favoritesOnly = (case input of None \<Rightarrow> False | Some b \<Rightarrow> b);
               filters = [\<lambda>r. t_userId r = user_id u]
                         @ (if favoritesOnly then [\<lambda>r. t_isFavorite r = True] else [])
           in case select_templates (\<lambda>r. list_all (\<lambda>p. p r) filters) s of
                (templates, s1) \<Rightarrow> (Inr (templates, length templates), s1)))"

definition listTemplates ::
  "jsval \<Rightarrow> ActionAPIContext \<Rightarrow> db \<Rightarrow> (error + template_row list \<times> nat) \<times> db" where
  "listTemplates raw ctx s =
     (case listTemplates_schema raw of
        None \<Rightarrow> (Inl VALIDATION, s)
      | Some input \<Rightarrow> listTemplates_handler input ctx s)"

subsection \<open>Variables\<close>

record createPromptVariable_input =
  cv_templateId :: string
  cv_name :: string
  cv_label :: "string option"
  cv_description :: "string option"
  cv_inputType :: "string option"
  cv_defaultValue :: "string option"
  cv_optionsJson :: "string option"
  cv_orderIndex :: "rat option"

definition createPromptVariable_schema :: "jsval \<Rightarrow> createPromptVariable_input option" where
  "createPromptVariable_schema v =
     (if \<not> is_object v then None
      else do {
        t \<leftarrow> z_string_min1 (field ''templateId'' v);
        n \<leftarrow> z_string_min1 (field ''name'' v);
        l \<leftarrow> z_optional z_string (field ''label'' v);
        d \<leftarrow> z_optional z_string (field ''description'' v);
        i \<leftarrow> z_optional z_string (field ''inputType'' v);
        dv \<leftarrow> z_optional z_string (field ''defaultValue'' v);
        oj \<leftarrow> z_optional z_string (field ''optionsJson'' v);
        oi \<leftarrow> z_optional z_number_int (field ''orderIndex'' v);
        Some \<lparr>cv_templateId = t, cv_name = n, cv_label = l, cv_description = d,
              cv_inputType = i, cv_defaultValue = dv, cv_optionsJson = oj, cv_orderIndex = oi\<rparr>
      })"

definition createPromptVariable_handler ::
  "createPromptVariable_input \<Rightarrow> ActionAPIContext \<Rightarrow> string \<Rightarrow> date \<Rightarrow> db
     \<Rightarrow> (error + variable_row option) \<times> db" where
  "createPromptVariable_handler input ctx uuid now s =
     (case requireUser ctx of
        Inl e \<Rightarrow> (Inl e, s)
      | Inr u \<Rightarrow>
          (case getOwnedTemplate (cv_templateId input) (user_id u) s of
             (Inl e, s1) \<Rightarrow> (Inl e, s1)
           | (Inr template, s1) \<Rightarrow>
               (case insert_variable
                       \<lparr>v_id = uuid, v_templateId = cv_templateId input, v_name = cv_name input,
                        v_label = cv_label input, v_description = cv_description input,
                        v_inputType = cv_inputType input, v_defaultValue = cv_defaultValue input,
                        v_optionsJson = cv_optionsJson input, v_orderIndex = cv_orderIndex input,
                        v_createdAt = now\<rparr> s1 of
                  (Inl e, s2) \<Rightarrow> (Inl e, s2)
                | (Inr returned, s2) \<Rightarrow> (Inr (first_row returned), s2))))"

definition createPromptVariable ::
  "jsval \<Rightarrow> ActionAPIContext \<Rightarrow> string \<Rightarrow> date \<Rightarrow> db \<Rightarrow> (error + variable_row option) \<times> db" where
  "createPromptVariable raw ctx uuid now s =
     (case createPromptVariable_schema raw of
        None \<Rightarrow> (Inl VALIDATION, s)
      | Some input \<Rightarrow> createPromptVariable_handler input ctx uuid now s)"

record updatePromptVariable_input =
  uv_id :: string
  uv_templateId :: string
  uv_name :: "string option"
  uv_label :: "string option"
  uv_description :: "string option"
  uv_inputType :: "string option"
  uv_defaultValue :: "string option"
  uv_optionsJson :: "string option"
  uv_orderIndex :: "rat option"

definition updatePromptVariable_schema :: "jsval \<Rightarrow> updatePromptVariable_input option" where
  "updatePromptVariable_schema v =
     (if \<not> is_object v then None
      else do {
        i \<leftarrow> z_string_min1 (field ''id'' v);
        t \<leftarrow> z_string_min1 (field ''templateId'' v);
        n \<leftarrow> z_optional z_string (field ''name'' v);
        l \<leftarrow> z_optional z_string (field ''label'' v);
        d \<leftarrow> z_optional z_string (field ''description'' v);
        it \<leftarrow> z_optional z_string (field ''inputType'' v);
        dv \<leftarrow> z_optional z_string (field ''defaultValue'' v);
        oj \<leftarrow> z_optional z_string (field ''optionsJson'' v);
        oi \<leftarrow> z_optional z_number_int (field ''orderIndex'' v);
        if n \<noteq> None \<or> l \<noteq> None \<or> d \<noteq> None \<or> it \<noteq> None \<or> dv \<noteq> None \<or> oj \<noteq> None \<or> oi \<noteq> None
        then Some \<lparr>uv_id = i, uv_templateId = t, uv_name = n, uv_label = l, uv_description = d,
                   uv_inputType = it, uv_defaultValue = dv, uv_optionsJson = oj,
                   uv_orderIndex = oi\<rparr>
        else None
      })"

text \<open>
  The set clause of a variable has no timestamp, so it is empty when no field is
  defined; the schema excludes that input before the handler runs.
\<close>

definition updatePromptVariable_set :: "updatePromptVariable_input \<Rightarrow> variable_row \<Rightarrow> variable_row" where
  "updatePromptVariable_set input r =
     r\<lparr>v_name := (case uv_name input of None \<Rightarrow> v_name r | Some n \<Rightarrow> n),
       v_label := (case uv_label input of None \<Rightarrow> v_label r | Some l \<Rightarrow> Some l),
       v_description := (case uv_description input of None \<Rightarrow> v_description r | Some d \<Rightarrow> Some d),
       v_inputType := (case uv_inputType input of None \<Rightarrow> v_inputType r | Some i \<Rightarrow> Some i),
       v_defaultValue :=
         (case uv_defaultValue input of None \<Rightarrow> v_defaultValue r | Some d \<Rightarrow> Some d),
       v_optionsJson := (case uv_optionsJson input of None \<Rightarrow> v_optionsJson r | Some j \<Rightarrow> Some j),
       v_orderIndex := (case uv_orderIndex input of None \<Rightarrow> v_orderIndex r | Some k \<Rightarrow> Some k)\<rparr>"

definition updatePromptVariable_handler ::
  "updatePromptVariable_input \<Rightarrow> ActionAPIContext \<Rightarrow> db \<Rightarrow> (error + variable_row option) \<times> db" where
  "updatePromptVariable_handler input ctx s =
     (case requireUser ctx of
        Inl e \<Rightarrow> (Inl e, s)
      | Inr u \<Rightarrow>
          (case getOwnedTemplate (uv_templateId input) (user_id u) s of
             (Inl e, s1) \<Rightarrow> (Inl e, s1)
           | (Inr template, s1) \<Rightarrow>
               (case select_variables
                       (\<lambda>r. v_id r = uv_id input \<and> v_templateId r = uv_templateId input) s1 of
                  (rows, s2) \<Rightarrow>
                    (case first_row rows of
                       None \<Rightarrow> (Inl (ActionError NOT_FOUND ''Prompt variable not found.''), s2)
                     | Some existing \<Rightarrow>
                         (case update_variables (\<lambda>r. v_id r = uv_id input)
                                                (updatePromptVariable_set input) s2 of
                            (returned, s3) \<Rightarrow> (Inr (first_row returned), s3))))))"

definition updatePromptVariable ::
  "jsval \<Rightarrow> ActionAPIContext \<Rightarrow> db \<Rightarrow> (error + variable_row option) \<times> db" where
  "updatePromptVariable raw ctx s =
     (case updatePromptVariable_schema raw of
        None \<Rightarrow> (Inl VALIDATION, s)
      | Some input \<Rightarrow> updatePromptVariable_handler input ctx s)"

record deletePromptVariable_input =
  dv_id :: string
  dv_templateId :: string

definition deletePromptVariable_schema :: "jsval \<Rightarrow> deletePromptVariable_input option" where
  "deletePromptVariable_schema v =
     (if \<not> is_object v then None
      else do {
        i \<leftarrow> z_string_min1 (field ''id'' v);
        t \<leftarrow> z_string_min1 (field ''templateId'' v);
        Some \<lparr>dv_id = i, dv_templateId = t\<rparr>
      })"

definition deletePromptVariable_handler ::
  "deletePromptVariable_input \<Rightarrow> ActionAPIContext \<Rightarrow> db \<Rightarrow> (error + unit) \<times> db" where
  "deletePromptVariable_handler input ctx s =
     (case requireUser ctx of
        Inl e \<Rightarrow> (Inl e, s)
      | Inr u \<Rightarrow>
          (case getOwnedTemplate (dv_templateId input) (user_id u) s of
             (Inl e, s1) \<Rightarrow> (Inl e, s1)
           | (Inr template, s1) \<Rightarrow>
               (case delete_variables
                       (\<lambda>r. v_id r = dv_id input \<and> v_templateId r = dv_templateId input) s1 of
                  (rowsAffected, s2) \<Rightarrow>
                    if rowsAffected = 0
                    then (Inl (ActionError NOT_FOUND ''Prompt variable not found.''), s2)
                    else (Inr (), s2))))"

definition deletePromptVariable ::
  "jsval \<Rightarrow> ActionAPIContext \<Rightarrow> db \<Rightarrow> (error + unit) \<times> db" where
  "deletePromptVariable raw ctx s =
     (case deletePromptVariable_schema raw of
        None \<Rightarrow> (Inl VALIDATION, s)
      | Some input \<Rightarrow> deletePromptVariable_handler input ctx s)"

definition listPromptVariables_schema :: "jsval \<Rightarrow> string option" where
  "listPromptVariables_schema v =
     (if \<not> is_object v then None else z_string_min1 (field ''templateId'' v))"

definition listPromptVariables_handler ::
  "string \<Rightarrow> ActionAPIContext \<Rightarrow> db \<Rightarrow> (error + variable_row list \<times> nat) \<times> db" where
  "listPromptVariables_handler templateId ctx s =
     (case requireUser ctx of
        Inl e \<Rightarrow> (Inl e, s)
      | Inr u \<Rightarrow>
          (case getOwnedTemplate templateId (user_id u) s of
             (Inl e, s1) \<Rightarrow> (Inl e, s1)
           | (Inr template, s1) \<Rightarrow>
               (case select_variables (\<lambda>r. v_templateId r = templateId) s1 of
                  (variables, s2) \<Rightarrow> (Inr (variables, length variables), s2))))"

definition listPromptVariables ::
  "jsval \<Rightarrow> ActionAPIContext \<Rightarrow> db \<Rightarrow> (error + variable_row list \<times> nat) \<times> db" where
  "listPromptVariables raw ctx s =
     (case listPromptVariables_schema raw of
        None \<Rightarrow> (Inl VALIDATION, s)
      | Some templateId \<Rightarrow> listPromptVariables_handler templateId ctx s)"

subsection \<open>Sequences of calls\<close>

text \<open>
  A call names an action with its request and with what the handler will draw from
  outside. \<open>store_after\<close> is the store a call leaves behind, whatever its outcome;
  \<open>run\<close> performs calls in order, each with its own caller.
\<close>

datatype call =
    CreateCollection jsval string date
  | UpdateCollection jsval date
  | ListCollections jsval
  | CreateTemplate jsval string date
  | UpdateTemplate jsval date
  | ListTemplates jsval
  | CreatePromptVariable jsval string date
  | UpdatePromptVariable jsval
  | DeletePromptVariable jsval
  | ListPromptVariables jsval

fun store_after :: "ActionAPIContext \<Rightarrow> call \<Rightarrow> db \<Rightarrow> db" where
  "store_after ctx (CreateCollection raw uuid now) s = snd (createCollection raw ctx uuid now s)"
| "store_after ctx (UpdateCollection raw now) s = snd (updateCollection raw ctx now s)"
| "store_after ctx (ListCollections raw) s = snd (listCollections raw ctx s)"
| "store_after ctx (CreateTemplate raw uuid now) s = snd (createTemplate raw ctx uuid now s)"
| "store_after ctx (UpdateTemplate raw now) s = snd (updateTemplate raw ctx now s)"
| "store_after ctx (ListTemplates raw) s = snd (listTemplates raw ctx s)"
| "store_after ctx (CreatePromptVariable raw uuid now) s =
     snd (createPromptVariable raw ctx uuid now s)"
| "store_after ctx (UpdatePromptVariable raw) s = snd (updatePromptVariable raw ctx s)"
| "store_after ctx (DeletePromptVariable raw) s = snd (deletePromptVariable raw ctx s)"
| "store_after ctx (ListPromptVariables raw) s = snd (listPromptVariables raw ctx s)"

fun run :: "(ActionAPIContext \<times> call) list \<Rightarrow> db \<Rightarrow> db" where
  "run [] s = s"
| "run ((ctx, c) # cs) s = run cs (store_after ctx c s)"

subsection \<open>A small store, for concrete runs\<close>

text \<open>
  Two signed-in callers and a store in which each owns a collection and a template:
  template \<open>t1\<close> of alice lies in her collection \<open>c1\<close> and is a favourite, \<open>t3\<close> is
  hers too, \<open>t2\<close> is bob's; variable \<open>v1\<close> belongs to \<open>t1\<close>, \<open>v2\<close> to \<open>t2\<close>.
\<close>

definition alice :: ActionAPIContext where
  "alice = \<lparr>locals = Some \<lparr>user = Some (User ''alice'')\<rparr>\<rparr>"

definition bob :: ActionAPIContext where
  "bob = \<lparr>locals = Some \<lparr>user = Some (User ''bob'')\<rparr>\<rparr>"

definition empty_db :: db where
  "empty_db = \<lparr>PromptCollections = [], PromptTemplates = [], PromptVariables = [], statements = []\<rparr>"

definition demo_c1 :: collection_row where
  "demo_c1 = \<lparr>c_id = ''c1'', c_userId = ''alice'', c_name = ''Coding'', c_description = Some ''helpers'',
              c_icon = None, c_isDefault = True, c_createdAt = 1, c_updatedAt = 1\<rparr>"

definition demo_c2 :: collection_row where
  "demo_c2 = \<lparr>c_id = ''c2'', c_userId = ''bob'', c_name = ''Marketing'', c_description = None,
              c_icon = None, c_isDefault = False, c_createdAt = 2, c_updatedAt = 2\<rparr>"

definition demo_t1 :: template_row where
  "demo_t1 = \<lparr>t_id = ''t1'', t_collectionId = Some ''c1'', t_userId = ''alice'', t_name = ''Explain'',
              t_description = None, t_modelHint = Some ''chat'', t_promptBody = ''Explain {{topic}}'',
              t_tags = None, t_isFavorite = True, t_isSystem = False,
              t_createdAt = 3, t_updatedAt = 3\<rparr>"

definition demo_t2 :: template_row where
  "demo_t2 = \<lparr>t_id = ''t2'', t_collectionId = None, t_userId = ''bob'', t_name = ''Slogan'',
              t_description = None, t_modelHint = None, t_promptBody = ''Sell {{product}}'',
              t_tags = None, t_isFavorite = True, t_isSystem = False,
              t_createdAt = 4, t_updatedAt = 4\<rparr>"

definition demo_t3 :: template_row where
  "demo_t3 = \<lparr>t_id = ''t3'', t_collectionId = None, t_userId = ''alice'', t_name = ''Review'',
              t_description = None, t_modelHint = None, t_promptBody = ''Review {{code}}'',
              t_tags = None, t_isFavorite = False, t_isSystem = False,
              t_createdAt = 5, t_updatedAt = 5\<rparr>"

definition demo_v1 :: variable_row where
  "demo_v1 = \<lparr>v_id = ''v1'', v_templateId = ''t1'', v_name = ''topic'', v_label = Some ''Topic'',
              v_description = None, v_inputType = None, v_defaultValue = None,
              v_optionsJson = None, v_orderIndex = Some 1, v_createdAt = 6\<rparr>"

definition demo_v2 :: variable_row where
  "demo_v2 = \<lparr>v_id = ''v2'', v_templateId = ''t2'', v_name = ''product'', v_label = None,
              v_description = None, v_inputType = None, v_defaultValue = None,
              v_optionsJson = None, v_orderIndex = None, v_createdAt = 7\<rparr>"

definition demo_db :: db where
  "demo_db = \<lparr>PromptCollections = [demo_c1, demo_c2],
              PromptTemplates = [demo_t1, demo_t2, demo_t3],
              PromptVariables = [demo_v1, demo_v2],
              statements = []\<rparr>"

text \<open>The store after the three creating calls of the first scenario.\<close>

definition scenario_db :: db where
  "scenario_db =
     run [(alice, CreateCollection (JObj [(''name'', JStr ''Coding'')]) ''c1'' 1),
          (alice, CreateTemplate
                    (JObj [(''name'', JStr ''Explain''), (''promptBody'', JStr ''Explain {{topic}}''),
                           (''collectionId'', JStr ''c1'')]) ''t1'' 2),
          (alice, CreatePromptVariable
                    (JObj [(''templateId'', JStr ''t1''), (''name'', JStr ''topic'')]) ''v1'' 3)]
         empty_db"

section \<open>Properties\<close>

subsection \<open>Rows, first rows and the resolvers\<close>

lemmas demo_defs = empty_db_def demo_c1_def demo_c2_def demo_t1_def demo_t2_def demo_t3_def demo_v1_def demo_v2_def demo_db_def

lemma keys_ok_demo: "keys_ok demo_db"
  by (simp add: keys_ok_def demo_defs)

lemma first_row_Nil [simp]: "first_row [] = None"
  by (simp add: first_row_def)

lemma first_row_Cons [simp]: "first_row (x # xs) = Some x"
  by (simp add: first_row_def)

lemma first_row_filter_None: "first_row (filter p xs) = None \<longleftrightarrow> (\<forall>x\<in>set xs. \<not> p x)"
  by (induction xs) (auto simp: first_row_def)

lemma first_row_filter_key:
  "distinct (map key xs) \<Longrightarrow> r \<in> set xs \<Longrightarrow> first_row (filter (\<lambda>x. key x = key r) xs) = Some r"
  by (induction xs) (auto simp: first_row_def split: list.splits)

lemma first_row_filter_Some:
  "first_row (filter p xs) = Some r \<Longrightarrow> r \<in> set xs \<and> p r"
  by (induction xs) (auto simp: first_row_def split: if_splits)

lemma getOwnedTemplate_absent:
  "\<forall>r\<in>set (PromptTemplates s). t_id r \<noteq> i \<Longrightarrow>
   getOwnedTemplate i u s = (Inl (ActionError NOT_FOUND ''Template not found.''), issue (SELECT Templates) s)"
  by (simp add: getOwnedTemplate_def select_templates_def first_row_filter_None [THEN iffD2])

lemma getOwnedTemplate_present:
  assumes "distinct (map t_id (PromptTemplates s))" and "r \<in> set (PromptTemplates s)"
  shows "getOwnedTemplate (t_id r) u s =
           (if t_userId r \<noteq> u
            then Inl (ActionError FORBIDDEN ''You do not have access to this template.'')
            else Inr r, issue (SELECT Templates) s)"
  using first_row_filter_key [OF assms]
  by (simp add: getOwnedTemplate_def select_templates_def)

lemma getOwnedCollection_fails:
  "\<forall>r\<in>set (PromptCollections s). \<not> (c_id r = i \<and> c_userId r = u) \<Longrightarrow>
   getOwnedCollection i u s = (Inl (ActionError NOT_FOUND ''Collection not found.''), issue (SELECT Collections) s)"
  by (simp add: getOwnedCollection_def select_collections_def first_row_filter_None [THEN iffD2])

lemma getOwnedCollection_Inl:
  "fst (getOwnedCollection i u s) = Inl e \<Longrightarrow> e = ActionError NOT_FOUND ''Collection not found.''"
  by (auto simp: getOwnedCollection_def select_collections_def split: option.splits)

lemma getOwnedCollection_Inr:
  "getOwnedCollection i u s = (Inr c, s1) \<Longrightarrow>
   c \<in> set (PromptCollections s) \<and> c_id c = i \<and> c_userId c = u \<and> s1 = issue (SELECT Collections) s"
  by (auto simp: getOwnedCollection_def select_collections_def split: option.splits
           dest: first_row_filter_Some)

text \<open>
  Claim C1. Resolving a template by an id that no row has fails with NOT_FOUND, and
  resolving one that exists under another owner fails with FORBIDDEN. Resolving a
  collection fails with NOT_FOUND in both cases, and a failure of the collection
  resolver is never anything else. This holds for every id and caller.
\<close>

theorem resolver_asymmetry:
  assumes "keys_ok s"
  shows "((\<forall>r\<in>set (PromptTemplates s). t_id r \<noteq> templateId) \<longrightarrow>
            fst (getOwnedTemplate templateId userId s) =
              Inl (ActionError NOT_FOUND ''Template not found.'')) \<and>
         ((\<exists>r\<in>set (PromptTemplates s). t_id r = templateId \<and> t_userId r \<noteq> userId) \<longrightarrow>
            fst (getOwnedTemplate templateId userId s) =
              Inl (ActionError FORBIDDEN ''You do not have access to this template.'')) \<and>
         ((\<forall>r\<in>set (PromptCollections s). c_id r \<noteq> collectionId) \<longrightarrow>
            fst (getOwnedCollection collectionId userId s) =
              Inl (ActionError NOT_FOUND ''Collection not found.'')) \<and>
         ((\<exists>r\<in>set (PromptCollections s). c_id r = collectionId \<and> c_userId r \<noteq> userId) \<longrightarrow>
            fst (getOwnedCollection collectionId userId s) =
              Inl (ActionError NOT_FOUND ''Collection not found.'')) \<and>
         (\<forall>e. fst (getOwnedCollection collectionId userId s) = Inl e \<longrightarrow>
            e = ActionError NOT_FOUND ''Collection not found.'')"
proof (intro conjI impI allI)
  assume "\<forall>r\<in>set (PromptTemplates s). t_id r \<noteq> templateId"
  then show "fst (getOwnedTemplate templateId userId s) =
               Inl (ActionError NOT_FOUND ''Template not found.'')"
    by (simp add: getOwnedTemplate_absent)
next
  assume "\<exists>r\<in>set (PromptTemplates s). t_id r = templateId \<and> t_userId r \<noteq> userId"
  then obtain r where r: "r \<in> set (PromptTemplates s)" "t_id r = templateId" "t_userId r \<noteq> userId"
    by blast
  from assms have "distinct (map t_id (PromptTemplates s))"
    by (simp add: keys_ok_def)
  from getOwnedTemplate_present [OF this r(1), of userId] r(2,3)
  show "fst (getOwnedTemplate templateId userId s) =
          Inl (ActionError FORBIDDEN ''You do not have access to this template.'')"
    by simp
next
  assume "\<forall>r\<in>set (PromptCollections s). c_id r \<noteq> collectionId"
  then show "fst (getOwnedCollection collectionId userId s) =
               Inl (ActionError NOT_FOUND ''Collection not found.'')"
    by (simp add: getOwnedCollection_fails)
next
  assume "\<exists>r\<in>set (PromptCollections s). c_id r = collectionId \<and> c_userId r \<noteq> userId"
  then obtain r where r: "r \<in> set (PromptCollections s)" "c_id r = collectionId" "c_userId r \<noteq> userId"
    by blast
  from assms have d: "distinct (map c_id (PromptCollections s))"
    by (simp add: keys_ok_def)
  have "\<forall>x\<in>set (PromptCollections s). \<not> (c_id x = collectionId \<and> c_userId x = userId)"
  proof
    fix x assume x: "x \<in> set (PromptCollections s)"
    show "\<not> (c_id x = collectionId \<and> c_userId x = userId)"
    proof
      assume "c_id x = collectionId \<and> c_userId x = userId"
      with r have "c_id x = c_id r" "x \<noteq> r" by auto
      with d x r(1) show False
        by (meson distinct_map inj_onD)
    qed
  qed
  then show "fst (getOwnedCollection collectionId userId s) =
               Inl (ActionError NOT_FOUND ''Collection not found.'')"
    by (simp add: getOwnedCollection_fails)
next
  fix e assume "fst (getOwnedCollection collectionId userId s) = Inl e"
  then show "e = ActionError NOT_FOUND ''Collection not found.''"
    by (rule getOwnedCollection_Inl)
qed

theorem resolver_asymmetry_witness:
  "keys_ok demo_db \<and>
   ''t9'' \<notin> t_id ` set (PromptTemplates demo_db) \<and>
   fst (getOwnedTemplate ''t9'' ''bob'' demo_db) = Inl (ActionError NOT_FOUND ''Template not found.'') \<and>
   (\<exists>r\<in>set (PromptTemplates demo_db). t_id r = ''t1'' \<and> t_userId r \<noteq> ''bob'') \<and>
   fst (getOwnedTemplate ''t1'' ''bob'' demo_db) =
     Inl (ActionError FORBIDDEN ''You do not have access to this template.'') \<and>
   ''c9'' \<notin> c_id ` set (PromptCollections demo_db) \<and>
   fst (getOwnedCollection ''c9'' ''bob'' demo_db) = Inl (ActionError NOT_FOUND ''Collection not found.'') \<and>
   (\<exists>r\<in>set (PromptCollections demo_db). c_id r = ''c1'' \<and> c_userId r \<noteq> ''bob'') \<and>
   fst (getOwnedCollection ''c1'' ''bob'' demo_db) = Inl (ActionError NOT_FOUND ''Collection not found.'')"
proof -
  have k: "keys_ok demo_db"
    by (simp add: keys_ok_def demo_defs)
  have a: "\<forall>r\<in>set (PromptTemplates demo_db). t_id r \<noteq> ''t9''"
    by (simp add: demo_defs)
  have b: "\<exists>r\<in>set (PromptTemplates demo_db). t_id r = ''t1'' \<and> t_userId r \<noteq> ''bob''"
    by (simp add: demo_defs)
  have c: "\<forall>r\<in>set (PromptCollections demo_db). c_id r \<noteq> ''c9''"
    by (simp add: demo_defs)
  have d: "\<exists>r\<in>set (PromptCollections demo_db). c_id r = ''c1'' \<and> c_userId r \<noteq> ''bob''"
    by (simp add: demo_defs)
  have a': "''t9'' \<notin> t_id ` set (PromptTemplates demo_db)"
    by (simp add: demo_defs)
  have c': "''c9'' \<notin> c_id ` set (PromptCollections demo_db)"
    by (simp add: demo_defs)
  note absent = resolver_asymmetry [OF k, of "''t9''" "''bob''" "''c9''"]
  note foreign = resolver_asymmetry [OF k, of "''t1''" "''bob''" "''c1''"]
  have r1: "fst (getOwnedTemplate ''t9'' ''bob'' demo_db) =
              Inl (ActionError NOT_FOUND ''Template not found.'')"
    using absent a by blast
  have r2: "fst (getOwnedTemplate ''t1'' ''bob'' demo_db) =
              Inl (ActionError FORBIDDEN ''You do not have access to this template.'')"
    using foreign b by blast
  have r3: "fst (getOwnedCollection ''c9'' ''bob'' demo_db) =
              Inl (ActionError NOT_FOUND ''Collection not found.'')"
    using absent c by blast
  have r4: "fst (getOwnedCollection ''c1'' ''bob'' demo_db) =
              Inl (ActionError NOT_FOUND ''Collection not found.'')"
    using foreign d by blast
  from k a' r1 b r2 c' r3 d r4 show ?thesis
    by (intro conjI)
qed

text \<open>
  Claim C2. An input to updateCollection, updateTemplate or updatePromptVariable in
  which none of the optional fields is present is rejected with VALIDATION, and the
  store is returned as it was: no table has changed and no statement was issued.
\<close>

theorem update_without_fields_rejected:
  "(field ''name'' raw = JUndefined \<and> field ''description'' raw = JUndefined \<and>
    field ''icon'' raw = JUndefined \<and> field ''isDefault'' raw = JUndefined
      \<longrightarrow> updateCollection raw ctx now s = (Inl VALIDATION, s)) \<and>
   (field ''collectionId'' raw = JUndefined \<and> field ''name'' raw = JUndefined \<and>
    field ''description'' raw = JUndefined \<and> field ''modelHint'' raw = JUndefined \<and>
    field ''promptBody'' raw = JUndefined \<and> field ''tags'' raw = JUndefined \<and>
    field ''isFavorite'' raw = JUndefined
      \<longrightarrow> updateTemplate raw ctx now s = (Inl VALIDATION, s)) \<and>
   (field ''name'' raw = JUndefined \<and> field ''label'' raw = JUndefined \<and>
    field ''description'' raw = JUndefined \<and> field ''inputType'' raw = JUndefined \<and>
    field ''defaultValue'' raw = JUndefined \<and> field ''optionsJson'' raw = JUndefined \<and>
    field ''orderIndex'' raw = JUndefined
      \<longrightarrow> updatePromptVariable raw ctx s = (Inl VALIDATION, s))"
proof (intro conjI impI)
  assume "field ''name'' raw = JUndefined \<and> field ''description'' raw = JUndefined \<and>
    field ''icon'' raw = JUndefined \<and> field ''isDefault'' raw = JUndefined"
  then have "updateCollection_schema raw = None"
    by (cases "z_string_min1 (field ''id'' raw)")
       (simp_all add: updateCollection_schema_def z_optional_def)
  then show "updateCollection raw ctx now s = (Inl VALIDATION, s)"
    by (simp add: updateCollection_def)
next
  assume "field ''collectionId'' raw = JUndefined \<and> field ''name'' raw = JUndefined \<and>
    field ''description'' raw = JUndefined \<and> field ''modelHint'' raw = JUndefined \<and>
    field ''promptBody'' raw = JUndefined \<and> field ''tags'' raw = JUndefined \<and>
    field ''isFavorite'' raw = JUndefined"
  then have "updateTemplate_schema raw = None"
    by (cases "z_string_min1 (field ''id'' raw)")
       (simp_all add: updateTemplate_schema_def z_optional_def)
  then show "updateTemplate raw ctx now s = (Inl VALIDATION, s)"
    by (simp add: updateTemplate_def)
next
  assume "field ''name'' raw = JUndefined \<and> field ''label'' raw = JUndefined \<and>
    field ''description'' raw = JUndefined \<and> field ''inputType'' raw = JUndefined \<and>
    field ''defaultValue'' raw = JUndefined \<and> field ''optionsJson'' raw = JUndefined \<and>
    field ''orderIndex'' raw = JUndefined"
  then have "updatePromptVariable_schema raw = None"
    by (cases "z_string_min1 (field ''id'' raw)"; cases "z_string_min1 (field ''templateId'' raw)")
       (simp_all add: updatePromptVariable_schema_def z_optional_def)
  then show "updatePromptVariable raw ctx s = (Inl VALIDATION, s)"
    by (simp add: updatePromptVariable_def)
qed

theorem update_without_fields_rejected_witness:
  "updateCollection (JObj [(''id'', JStr ''c1'')]) alice 9 demo_db = (Inl VALIDATION, demo_db) \<and>
   updateTemplate (JObj [(''id'', JStr ''t1'')]) alice 9 demo_db = (Inl VALIDATION, demo_db) \<and>
   updatePromptVariable (JObj [(''id'', JStr ''v1''), (''templateId'', JStr ''t1'')]) alice demo_db
     = (Inl VALIDATION, demo_db)"
  using update_without_fields_rejected [of "JObj [(''id'', JStr ''c1'')]" alice 9 demo_db]
        update_without_fields_rejected [of "JObj [(''id'', JStr ''t1'')]" alice 9 demo_db]
        update_without_fields_rejected
          [of "JObj [(''id'', JStr ''v1''), (''templateId'', JStr ''t1'')]" alice 9 demo_db]
  by (simp add: field_def)

subsection \<open>Creating a template\<close>

lemmas schema_defs = field_def is_object_def z_string_def z_string_min1_def z_boolean_def
  z_number_int_def z_optional_def z_default_def

lemmas store_defs = issue_def select_collections_def select_templates_def select_variables_def
  insert_collection_def insert_template_def insert_variable_def insert_row_def
  collection_exists_def template_exists_def
  update_collections_def update_templates_def update_variables_def update_where_def
  delete_variables_def delete_where_def

lemma requireUser_alice: "requireUser alice = Inr (User ''alice'')"
  by (simp add: requireUser_def alice_def)

lemma requireUser_bob: "requireUser bob = Inr (User ''bob'')"
  by (simp add: requireUser_def bob_def)

lemma createTemplate_schema_empty:
  "createTemplate_schema
     (JObj [(''name'', JStr ''Explain''), (''promptBody'', JStr ''Explain it''),
            (''collectionId'', JStr '''')]) =
   Some \<lparr>ct_collectionId = Some '''', ct_name = ''Explain'', ct_description = None,
         ct_modelHint = None, ct_promptBody = ''Explain it'', ct_tags = None,
         ct_isFavorite = None\<rparr>"
  by (simp add: createTemplate_schema_def schema_defs)

text \<open>
  Claim C3, at the input where it fails. A signed-in caller creates a template whose
  collectionId is the empty string, which no collection has as its id. The truthiness
  guard skips the ownership check, so no SELECT on the collections is issued; the
  handler goes on to the INSERT with the empty string as collectionId, and the store
  refuses it for the reference. The call fails with the store's constraint error, not
  with NOT_FOUND, and the tables are unchanged.
\<close>

theorem createTemplate_empty_collectionId:
  "createTemplate
     (JObj [(''name'', JStr ''Explain''), (''promptBody'', JStr ''Explain it''),
            (''collectionId'', JStr '''')]) alice ''t9'' 10 demo_db =
   (Inl CONSTRAINT, demo_db\<lparr>statements := [INSERT Templates]\<rparr>)"
  by (simp add: createTemplate_def createTemplate_schema_empty createTemplate_handler_def
      requireUser_alice truthy_def store_defs demo_defs)

text \<open>
  The same outcome on every store that has no collection with the empty id, for every
  request whose collectionId is the empty string.
\<close>

lemma createTemplate_empty_reference:
  assumes "createTemplate_schema raw = Some input" and "requireUser ctx = Inr u"
    and "ct_collectionId input = Some []"
    and "[] \<notin> c_id ` set (PromptCollections s)"
  shows "createTemplate raw ctx uuid now s = (Inl CONSTRAINT, issue (INSERT Templates) s)"
  using assms
  by (simp add: createTemplate_def createTemplate_handler_def truthy_def insert_template_def
      insert_row_def collection_exists_def)

lemma issue_tables [simp]:
  "PromptCollections (issue q s) = PromptCollections s"
  "PromptTemplates (issue q s) = PromptTemplates s"
  "PromptVariables (issue q s) = PromptVariables s"
  "statements (issue q s) = statements s @ [q]"
  by (simp_all add: issue_def)

lemma getOwnedCollection_store:
  "snd (getOwnedCollection i u s) = issue (SELECT Collections) s"
  by (simp add: getOwnedCollection_def select_collections_def split: option.splits)

lemma getOwnedTemplate_store:
  "snd (getOwnedTemplate i u s) = issue (SELECT Templates) s"
  by (simp add: getOwnedTemplate_def select_templates_def split: option.splits)

lemma getOwnedCollection_eq:
  "getOwnedCollection i u s = (r, s1) \<Longrightarrow> s1 = issue (SELECT Collections) s"
  using getOwnedCollection_store [of i u s] by simp

lemma getOwnedTemplate_eq:
  "getOwnedTemplate i u s = (r, s1) \<Longrightarrow> s1 = issue (SELECT Templates) s"
  using getOwnedTemplate_store [of i u s] by simp

lemma insert_template_cases:
  "insert_template r s = (res, s') \<Longrightarrow>
     (res = Inl CONSTRAINT \<and> PromptTemplates s' = PromptTemplates s) \<or>
     (res = Inr [r] \<and> PromptTemplates s' = PromptTemplates s @ [r])"
  by (auto simp: insert_template_def insert_row_def split: if_splits)

lemma createTemplate_handler_outcome:
  assumes "createTemplate_handler input ctx uuid now s = (res, s')"
  shows "(\<exists>e. res = Inl e \<and> PromptTemplates s' = PromptTemplates s) \<or>
         (\<exists>row. res = Inr (Some row) \<and> t_isSystem row = False \<and>
                PromptTemplates s' = PromptTemplates s @ [row])"
proof (cases "requireUser ctx")
  case (Inl e)
  with assms show ?thesis
    by (auto simp: createTemplate_handler_def)
next
  case (Inr u)
  define chk where "chk =
    (case ct_collectionId input of
       None \<Rightarrow> (Inr (), s)
     | Some c \<Rightarrow>
         if truthy c
         then (case getOwnedCollection c (user_id u) s of
                 (Inl e, s1) \<Rightarrow> (Inl e, s1)
               | (Inr owned, s1) \<Rightarrow> (Inr (), s1))
         else (Inr (), s))"
  have chk_tables: "PromptTemplates (snd chk) = PromptTemplates s"
    by (auto simp: chk_def split: option.splits prod.splits sum.splits
             dest!: getOwnedCollection_eq)
  obtain cr s1 where chk_eq: "chk = (cr, s1)"
    by (cases chk)
  with chk_tables have s1: "PromptTemplates s1 = PromptTemplates s"
    by simp
  show ?thesis
  proof (cases cr)
    case (Inl e)
    with assms Inr chk_eq s1 show ?thesis
      by (auto simp: createTemplate_handler_def chk_def [symmetric])
  next
    case ok: (Inr x)
    let ?row = "\<lparr>t_id = uuid, t_collectionId = ct_collectionId input,
                 t_userId = user_id u, t_name = ct_name input,
                 t_description = ct_description input, t_modelHint = ct_modelHint input,
                 t_promptBody = ct_promptBody input, t_tags = ct_tags input,
                 t_isFavorite = (case ct_isFavorite input of None \<Rightarrow> False | Some b \<Rightarrow> b),
                 t_isSystem = False, t_createdAt = now, t_updatedAt = now\<rparr>"
    obtain ir s2 where ins: "insert_template ?row s1 = (ir, s2)"
      by (cases "insert_template ?row s1")
    from insert_template_cases [OF ins] s1
    have "(ir = Inl CONSTRAINT \<and> PromptTemplates s2 = PromptTemplates s) \<or>
          (ir = Inr [?row] \<and> PromptTemplates s2 = PromptTemplates s @ [?row])"
      by simp
    with assms Inr chk_eq ok ins show ?thesis
      by (auto simp: createTemplate_handler_def chk_def [symmetric])
  qed
qed

lemma createTemplate_system_request:
  "createTemplate
     (JObj [(''name'', JStr ''Explain''), (''promptBody'', JStr ''Explain it''),
            (''collectionId'', JStr ''c1''), (''isSystem'', JBool True)]) alice ''t9'' 10 demo_db =
   (Inr (Some \<lparr>t_id = ''t9'', t_collectionId = Some ''c1'', t_userId = ''alice'',
               t_name = ''Explain'', t_description = None, t_modelHint = None,
               t_promptBody = ''Explain it'', t_tags = None, t_isFavorite = False,
               t_isSystem = False, t_createdAt = 10, t_updatedAt = 10\<rparr>),
    demo_db\<lparr>PromptTemplates :=
              [demo_t1, demo_t2, demo_t3,
               \<lparr>t_id = ''t9'', t_collectionId = Some ''c1'', t_userId = ''alice'',
                t_name = ''Explain'', t_description = None, t_modelHint = None,
                t_promptBody = ''Explain it'', t_tags = None, t_isFavorite = False,
                t_isSystem = False, t_createdAt = 10, t_updatedAt = 10\<rparr>],
            statements := [SELECT Collections, INSERT Templates]\<rparr>)"
  by (simp add: createTemplate_def createTemplate_schema_def schema_defs
      createTemplate_handler_def requireUser_alice truthy_def getOwnedCollection_def
      store_defs demo_defs)

lemma createTemplate_collection_checked:
  assumes "createTemplate_schema raw = Some input"
    and "requireUser ctx = Inr u"
    and "ct_collectionId input = Some c" and "c \<noteq> []"
    and "\<forall>r\<in>set (PromptCollections s). \<not> (c_id r = c \<and> c_userId r = user_id u)"
  shows "createTemplate raw ctx uuid now s =
           (Inl (ActionError NOT_FOUND ''Collection not found.''), issue (SELECT Collections) s)"
  using assms(1-4) getOwnedCollection_fails [OF assms(5)]
  by (simp add: createTemplate_def createTemplate_handler_def truthy_def)

subsection \<open>Listing templates\<close>

lemma listTemplates_schema_cases:
  "listTemplates_schema JUndefined = Some None"
  "is_object raw \<Longrightarrow> field ''favoritesOnly'' raw = JUndefined \<Longrightarrow>
     listTemplates_schema raw = Some (Some False)"
  "is_object raw \<Longrightarrow> field ''favoritesOnly'' raw = JBool b \<Longrightarrow>
     listTemplates_schema raw = Some (Some b)"
  by (auto simp: listTemplates_schema_def z_default_def z_boolean_def is_object_def
           split: jsval.splits)

lemma listTemplates_handler_eq:
  "requireUser ctx = Inr u \<Longrightarrow>
   listTemplates_handler input ctx s =
     (Inr (filter (\<lambda>r. t_userId r = user_id u \<and> (input = Some True \<longrightarrow> t_isFavorite r))
                  (PromptTemplates s),
           length (filter (\<lambda>r. t_userId r = user_id u \<and> (input = Some True \<longrightarrow> t_isFavorite r))
                  (PromptTemplates s))),
      issue (SELECT Templates) s)"
  by (cases input) (auto simp: listTemplates_handler_def select_templates_def Let_def)

text \<open>
  Claim C7. For a signed-in caller, listTemplates returns exactly the templates whose
  userId is the caller's id, in table order; when favoritesOnly is true the rows are
  further restricted to the favourites, and when the input or the field is absent, or
  the field is false, no favourite filter applies. The total is the number of items.
\<close>

theorem listTemplates_result:
  assumes "requireUser ctx = Inr u"
  shows "((raw = JUndefined \<or>
           is_object raw \<and> (field ''favoritesOnly'' raw = JUndefined \<or>
                             field ''favoritesOnly'' raw = JBool False)) \<longrightarrow>
            listTemplates raw ctx s =
              (Inr (filter (\<lambda>r. t_userId r = user_id u) (PromptTemplates s),
                    length (filter (\<lambda>r. t_userId r = user_id u) (PromptTemplates s))),
               issue (SELECT Templates) s)) \<and>
         (is_object raw \<and> field ''favoritesOnly'' raw = JBool True \<longrightarrow>
            listTemplates raw ctx s =
              (Inr (filter (\<lambda>r. t_userId r = user_id u \<and> t_isFavorite r) (PromptTemplates s),
                    length (filter (\<lambda>r. t_userId r = user_id u \<and> t_isFavorite r)
                                   (PromptTemplates s))),
               issue (SELECT Templates) s)) \<and>
         (\<forall>items total s'. listTemplates raw ctx s = (Inr (items, total), s') \<longrightarrow>
            total = length items \<and> (\<forall>r\<in>set items. t_userId r = user_id u))"
proof -
  note h = listTemplates_handler_eq [OF assms]
  have plain: "listTemplates raw ctx s =
              (Inr (filter (\<lambda>r. t_userId r = user_id u) (PromptTemplates s),
                    length (filter (\<lambda>r. t_userId r = user_id u) (PromptTemplates s))),
               issue (SELECT Templates) s)"
    if "listTemplates_schema raw = Some None \<or> listTemplates_schema raw = Some (Some False)"
    using that by (auto simp: listTemplates_def h)
  have p1: "listTemplates_schema raw = Some None \<or> listTemplates_schema raw = Some (Some False)"
    if "raw = JUndefined \<or>
        is_object raw \<and> (field ''favoritesOnly'' raw = JUndefined \<or>
                          field ''favoritesOnly'' raw = JBool False)"
    using that listTemplates_schema_cases(1) listTemplates_schema_cases(2) [of raw]
      listTemplates_schema_cases(3) [of raw False]
    by auto
  have p2: "listTemplates raw ctx s =
              (Inr (filter (\<lambda>r. t_userId r = user_id u \<and> t_isFavorite r) (PromptTemplates s),
                    length (filter (\<lambda>r. t_userId r = user_id u \<and> t_isFavorite r)
                                   (PromptTemplates s))),
               issue (SELECT Templates) s)"
    if "is_object raw \<and> field ''favoritesOnly'' raw = JBool True"
    using that listTemplates_schema_cases(3) [of raw True]
    by (simp add: listTemplates_def h)
  have p3: "total = length items \<and> (\<forall>r\<in>set items. t_userId r = user_id u)"
    if "listTemplates raw ctx s = (Inr (items, total), s')" for items total s'
    using that by (auto simp: listTemplates_def h split: option.splits)
  from plain p1 p2 p3 show ?thesis
    by blast
qed

theorem listTemplates_result_witness:
  "listTemplates JUndefined alice demo_db =
     (Inr ([demo_t1, demo_t3], 2), issue (SELECT Templates) demo_db) \<and>
   listTemplates (JObj [(''favoritesOnly'', JBool False)]) alice demo_db =
     (Inr ([demo_t1, demo_t3], 2), issue (SELECT Templates) demo_db) \<and>
   listTemplates (JObj [(''favoritesOnly'', JBool True)]) alice demo_db =
     (Inr ([demo_t1], 1), issue (SELECT Templates) demo_db)"
proof -
  have f1: "filter (\<lambda>r. t_userId r = user_id (User ''alice'')) (PromptTemplates demo_db) =
              [demo_t1, demo_t3]"
    by (simp add: demo_defs)
  have f2: "filter (\<lambda>r. t_userId r = user_id (User ''alice'') \<and> t_isFavorite r)
              (PromptTemplates demo_db) = [demo_t1]"
    by (simp add: demo_defs)
  have o1: "is_object (JObj [(''favoritesOnly'', JBool False)]) \<and>
            (field ''favoritesOnly'' (JObj [(''favoritesOnly'', JBool False)]) = JUndefined \<or>
             field ''favoritesOnly'' (JObj [(''favoritesOnly'', JBool False)]) = JBool False)"
    by (simp add: is_object_def field_def)
  have o2: "is_object (JObj [(''favoritesOnly'', JBool True)]) \<and>
            field ''favoritesOnly'' (JObj [(''favoritesOnly'', JBool True)]) = JBool True"
    by (simp add: is_object_def field_def)
  note r1 = listTemplates_result [OF requireUser_alice, of JUndefined demo_db, THEN conjunct1]
  note r2 = listTemplates_result
              [OF requireUser_alice, of "JObj [(''favoritesOnly'', JBool False)]" demo_db,
               THEN conjunct1]
  note r3 = listTemplates_result
              [OF requireUser_alice, of "JObj [(''favoritesOnly'', JBool True)]" demo_db,
               THEN conjunct2, THEN conjunct1]
  have a: "listTemplates JUndefined alice demo_db =
             (Inr ([demo_t1, demo_t3], 2), issue (SELECT Templates) demo_db)"
    using r1 unfolding f1 by simp
  have b: "listTemplates (JObj [(''favoritesOnly'', JBool False)]) alice demo_db =
             (Inr ([demo_t1, demo_t3], 2), issue (SELECT Templates) demo_db)"
    using r2 [rule_format, OF disjI2, OF o1] unfolding f1 by simp
  have c: "listTemplates (JObj [(''favoritesOnly'', JBool True)]) alice demo_db =
             (Inr ([demo_t1], 1), issue (SELECT Templates) demo_db)"
    using r3 [rule_format, OF o2] unfolding f2 by simp
  from a b c show ?thesis by (intro conjI)
qed

subsection \<open>Updating a collection\<close>

lemma key_unique:
  "distinct (map key xs) \<Longrightarrow> r \<in> set xs \<Longrightarrow> x \<in> set xs \<Longrightarrow> key x = key r \<Longrightarrow> x = r"
  by (meson distinct_map inj_onD)

lemma filter_key_unique:
  "distinct (map key xs) \<Longrightarrow> r \<in> set xs \<Longrightarrow> filter (\<lambda>x. key x = key r) xs = [r]"
proof (induction xs)
  case Nil
  then show ?case by simp
next
  case (Cons a xs)
  show ?case
  proof (cases "a = r")
    case True
    with Cons.prems have "key r \<notin> key ` set xs"
      by simp
    then have "\<forall>x\<in>set xs. key x \<noteq> key r"
      by (metis imageI)
    then have "filter (\<lambda>x. key x = key r) xs = []"
      by (simp add: filter_empty_conv)
    with True show ?thesis by simp
  next
    case False
    with Cons.prems have "r \<in> set xs" "key a \<noteq> key r" "distinct (map key xs)"
      by auto
    with Cons.IH show ?thesis by simp
  qed
qed

lemma update_where_key:
  assumes "distinct (map key xs)" and "r \<in> set xs"
  shows "update_where (\<lambda>x. key x = key r) f xs =
           (map (\<lambda>x. if key x = key r then f r else x) xs, [f r])"
proof -
  have "map (\<lambda>x. if key x = key r then f x else x) xs =
        map (\<lambda>x. if key x = key r then f r else x) xs"
    using key_unique [OF assms] by (intro map_cong) auto
  then show ?thesis
    by (simp add: update_where_def filter_key_unique [OF assms])
qed

lemma z_string_min1_Some: "z_string_min1 v = Some x \<Longrightarrow> v = JStr x \<and> x \<noteq> []"
  by (auto simp: z_string_min1_def split: jsval.splits if_splits)

lemma z_optional_string:
  "z_optional z_string v = Some x \<Longrightarrow>
     (v = JUndefined \<and> x = None) \<or> (\<exists>str. v = JStr str \<and> x = Some str)"
  by (auto simp: z_optional_def z_string_def split: jsval.splits)

lemma z_optional_string_min1:
  "z_optional z_string_min1 v = Some x \<Longrightarrow>
     (v = JUndefined \<and> x = None) \<or> (\<exists>str. v = JStr str \<and> str \<noteq> [] \<and> x = Some str)"
  by (auto simp: z_optional_def z_string_min1_def split: jsval.splits if_splits)

lemma z_optional_boolean:
  "z_optional z_boolean v = Some x \<Longrightarrow>
     (v = JUndefined \<and> x = None) \<or> (\<exists>b. v = JBool b \<and> x = Some b)"
  by (auto simp: z_optional_def z_boolean_def split: jsval.splits)

lemma updateCollection_schema_Some:
  assumes "updateCollection_schema raw = Some input"
  shows "field ''id'' raw = JStr (uc_id input) \<and>
         uc_name input = (case field ''name'' raw of JStr n \<Rightarrow> Some n | _ \<Rightarrow> None) \<and>
         uc_description input = (case field ''description'' raw of JStr d \<Rightarrow> Some d | _ \<Rightarrow> None) \<and>
         uc_icon input = (case field ''icon'' raw of JStr i \<Rightarrow> Some i | _ \<Rightarrow> None) \<and>
         uc_isDefault input = (case field ''isDefault'' raw of JBool b \<Rightarrow> Some b | _ \<Rightarrow> None)"
proof -
  from assms obtain i n d ic b where
    p: "z_string_min1 (field ''id'' raw) = Some i"
       "z_optional z_string_min1 (field ''name'' raw) = Some n"
       "z_optional z_string (field ''description'' raw) = Some d"
       "z_optional z_string (field ''icon'' raw) = Some ic"
       "z_optional z_boolean (field ''isDefault'' raw) = Some b"
    and inp: "input = \<lparr>uc_id = i, uc_name = n, uc_description = d, uc_icon = ic, uc_isDefault = b\<rparr>"
    by (auto simp: updateCollection_schema_def bind_eq_Some_conv split: if_splits)
  from z_string_min1_Some [OF p(1)] z_optional_string_min1 [OF p(2)] z_optional_string [OF p(3)]
    z_optional_string [OF p(4)] z_optional_boolean [OF p(5)] inp
  show ?thesis
    by auto
qed

lemma updateCollection_handler_Inr:
  assumes "updateCollection_handler input ctx now s = (Inr result, s')"
    and "distinct (map c_id (PromptCollections s))"
  shows "\<exists>u old. requireUser ctx = Inr u \<and> old \<in> set (PromptCollections s) \<and>
           c_id old = uc_id input \<and> c_userId old = user_id u \<and>
           result = Some (updateCollection_set input now old) \<and>
           PromptCollections s' =
             map (\<lambda>r. if c_id r = c_id old then updateCollection_set input now old else r)
                 (PromptCollections s) \<and>
           PromptTemplates s' = PromptTemplates s \<and>
           PromptVariables s' = PromptVariables s \<and>
           statements s' = statements s @ [SELECT Collections, UPDATE Collections]"
proof -
  from assms(1) obtain u where u: "requireUser ctx = Inr u"
    by (cases "requireUser ctx") (auto simp: updateCollection_handler_def)
  from assms(1) u obtain old s1 where
    g: "getOwnedCollection (uc_id input) (user_id u) s = (Inr old, s1)"
    by (cases "getOwnedCollection (uc_id input) (user_id u) s")
       (auto simp: updateCollection_handler_def split: sum.splits)
  from getOwnedCollection_Inr [OF g]
  have old: "old \<in> set (PromptCollections s)" "c_id old = uc_id input"
       "c_userId old = user_id u" "s1 = issue (SELECT Collections) s"
    by simp_all
  have upd: "update_where (\<lambda>r. c_id r = uc_id input) (updateCollection_set input now)
               (PromptCollections s) =
             (map (\<lambda>r. if c_id r = c_id old then updateCollection_set input now old else r)
                  (PromptCollections s), [updateCollection_set input now old])"
    using update_where_key [OF assms(2) old(1), of "updateCollection_set input now"] old(2)
    by simp
  from assms(1) u g old(4) upd
  have "result = Some (updateCollection_set input now old) \<and>
        s' = (issue (UPDATE Collections) (issue (SELECT Collections) s))
               \<lparr>PromptCollections :=
                  map (\<lambda>r. if c_id r = c_id old then updateCollection_set input now old else r)
                      (PromptCollections s)\<rparr>"
    by (auto simp: updateCollection_handler_def update_collections_def)
  with u old show ?thesis
    by (auto simp: issue_def)
qed

text \<open>
  Claim C5. A successful updateCollection on a store with unique keys rewrites one
  row, the caller's collection with the given id, and returns it. In the new row each
  of name, description, icon and isDefault is the supplied value when its field is
  present and the previous value when it is not (never null for that reason);
  updatedAt is the time of the update; id, userId and createdAt are as before; all
  other rows and the other tables are unchanged.
\<close>

theorem updateCollection_frame:
  assumes "updateCollection raw ctx now s = (Inr result, s')" and "keys_ok s"
  shows "\<exists>old new.
           old \<in> set (PromptCollections s) \<and> field ''id'' raw = JStr (c_id old) \<and>
           result = Some new \<and>
           PromptCollections s' =
             map (\<lambda>r. if c_id r = c_id old then new else r) (PromptCollections s) \<and>
           c_name new = (case field ''name'' raw of JStr n \<Rightarrow> n | _ \<Rightarrow> c_name old) \<and>
           c_description new =
             (case field ''description'' raw of JStr d \<Rightarrow> Some d | _ \<Rightarrow> c_description old) \<and>
           c_icon new = (case field ''icon'' raw of JStr i \<Rightarrow> Some i | _ \<Rightarrow> c_icon old) \<and>
           c_isDefault new =
             (case field ''isDefault'' raw of JBool b \<Rightarrow> b | _ \<Rightarrow> c_isDefault old) \<and>
           c_updatedAt new = now \<and>
           c_id new = c_id old \<and> c_userId new = c_userId old \<and>
           c_createdAt new = c_createdAt old \<and>
           PromptTemplates s' = PromptTemplates s \<and> PromptVariables s' = PromptVariables s"
proof -
  from assms(1) obtain input where
    sch: "updateCollection_schema raw = Some input" and
    h: "updateCollection_handler input ctx now s = (Inr result, s')"
    by (cases "updateCollection_schema raw") (auto simp: updateCollection_def)
  from assms(2) have d: "distinct (map c_id (PromptCollections s))"
    by (simp add: keys_ok_def)
  from updateCollection_handler_Inr [OF h d] obtain u old where
    old: "old \<in> set (PromptCollections s)" "c_id old = uc_id input"
      "result = Some (updateCollection_set input now old)"
      "PromptCollections s' =
         map (\<lambda>r. if c_id r = c_id old then updateCollection_set input now old else r)
             (PromptCollections s)"
      "PromptTemplates s' = PromptTemplates s" "PromptVariables s' = PromptVariables s"
    by blast
  note f = updateCollection_schema_Some [OF sch]
  let ?new = "updateCollection_set input now old"
  have n1: "c_name ?new = (case field ''name'' raw of JStr n \<Rightarrow> n | _ \<Rightarrow> c_name old)"
    using f by (simp add: updateCollection_set_def split: jsval.splits)
  have n2: "c_description ?new =
              (case field ''description'' raw of JStr d \<Rightarrow> Some d | _ \<Rightarrow> c_description old)"
    using f by (simp add: updateCollection_set_def split: jsval.splits)
  have n3: "c_icon ?new = (case field ''icon'' raw of JStr i \<Rightarrow> Some i | _ \<Rightarrow> c_icon old)"
    using f by (simp add: updateCollection_set_def split: jsval.splits)
  have n4: "c_isDefault ?new =
              (case field ''isDefault'' raw of JBool b \<Rightarrow> b | _ \<Rightarrow> c_isDefault old)"
    using f by (simp add: updateCollection_set_def split: jsval.splits)
  have n5: "c_updatedAt ?new = now" "c_id ?new = c_id old" "c_userId ?new = c_userId old"
    "c_createdAt ?new = c_createdAt old"
    by (simp_all add: updateCollection_set_def)
  have i: "field ''id'' raw = JStr (c_id old)"
    using f old(2) by simp
  from old(1) i old(3,4) n1 n2 n3 n4 n5 old(5,6) show ?thesis
    by blast
qed

lemma updateCollection_icon_request:
  "updateCollection (JObj [(''id'', JStr ''c1''), (''icon'', JStr ''star'')]) alice 9 demo_db =
     (Inr (Some (demo_c1\<lparr>c_icon := Some ''star'', c_updatedAt := 9\<rparr>)),
      demo_db\<lparr>PromptCollections := [demo_c1\<lparr>c_icon := Some ''star'', c_updatedAt := 9\<rparr>, demo_c2],
              statements := [SELECT Collections, UPDATE Collections]\<rparr>)"
  by (simp add: updateCollection_def updateCollection_schema_def schema_defs
      updateCollection_handler_def requireUser_alice getOwnedCollection_def
      updateCollection_set_def store_defs demo_defs)

theorem updateCollection_frame_witness:
  "\<exists>new s'.
     updateCollection (JObj [(''id'', JStr ''c1''), (''icon'', JStr ''star'')]) alice 9 demo_db =
       (Inr (Some new), s') \<and>
     c_name new = ''Coding'' \<and> c_description new = Some ''helpers'' \<and>
     c_icon new = Some ''star'' \<and> c_isDefault new = True \<and> c_updatedAt new = 9 \<and>
     c_id new = ''c1'' \<and> c_userId new = ''alice'' \<and> c_createdAt new = 1 \<and>
     PromptCollections s' = [new, demo_c2]"
proof -
  let ?raw = "JObj [(''id'', JStr ''c1''), (''icon'', JStr ''star'')]"
  from updateCollection_frame [OF updateCollection_icon_request keys_ok_demo]
  obtain old new where
    r: "old \<in> set (PromptCollections demo_db)" "field ''id'' ?raw = JStr (c_id old)"
       "Some (demo_c1\<lparr>c_icon := Some ''star'', c_updatedAt := 9\<rparr>) = Some new"
       "c_name new = (case field ''name'' ?raw of JStr n \<Rightarrow> n | _ \<Rightarrow> c_name old)"
       "c_description new =
          (case field ''description'' ?raw of JStr d \<Rightarrow> Some d | _ \<Rightarrow> c_description old)"
       "c_icon new = (case field ''icon'' ?raw of JStr i \<Rightarrow> Some i | _ \<Rightarrow> c_icon old)"
       "c_isDefault new =
          (case field ''isDefault'' ?raw of JBool b \<Rightarrow> b | _ \<Rightarrow> c_isDefault old)"
       "c_updatedAt new = 9" "c_id new = c_id old" "c_userId new = c_userId old"
       "c_createdAt new = c_createdAt old"
    by blast
  from r(1,2) have old: "old = demo_c1"
    by (auto simp: field_def demo_defs)
  from r(4-11) have
    "c_name new = ''Coding'' \<and> c_description new = Some ''helpers'' \<and>
     c_icon new = Some ''star'' \<and> c_isDefault new = True \<and> c_updatedAt new = 9 \<and>
     c_id new = ''c1'' \<and> c_userId new = ''alice'' \<and> c_createdAt new = 1"
    unfolding old by (simp add: field_def demo_c1_def)
  moreover from r(3) have "new = demo_c1\<lparr>c_icon := Some ''star'', c_updatedAt := 9\<rparr>"
    by simp
  ultimately show ?thesis
    using updateCollection_icon_request by simp
qed

subsection \<open>Updating a variable\<close>

lemma first_row_map_filter:
  "first_row (map f (filter p xs)) = Some y \<Longrightarrow> \<exists>x\<in>set xs. p x \<and> y = f x"
proof (cases "filter p xs")
  case Nil
  moreover assume "first_row (map f (filter p xs)) = Some y"
  ultimately show ?thesis by simp
next
  case (Cons a list)
  then have "a \<in> set (filter p xs)"
    by simp
  then have "a \<in> set xs" "p a"
    by simp_all
  moreover assume "first_row (map f (filter p xs)) = Some y"
  with Cons have "y = f a"
    by simp
  ultimately show ?thesis
    by (intro bexI [of _ a]) simp_all
qed

lemma first_row_map_filter_ex:
  assumes "x \<in> set xs" and "p x"
  shows "\<exists>y. first_row (map f (filter p xs)) = Some y"
proof (cases "filter p xs")
  case Nil
  with assms show ?thesis
    by (simp add: filter_empty_conv)
next
  case (Cons a list)
  then show ?thesis by simp
qed

lemma updatePromptVariable_set_keeps:
  "v_id (updatePromptVariable_set input r) = v_id r"
  "v_templateId (updatePromptVariable_set input r) = v_templateId r"
  "v_createdAt (updatePromptVariable_set input r) = v_createdAt r"
  by (simp_all add: updatePromptVariable_set_def)

lemma updatePromptVariable_schema_Some:
  assumes "updatePromptVariable_schema raw = Some input"
  shows "field ''id'' raw = JStr (uv_id input) \<and> field ''templateId'' raw = JStr (uv_templateId input)"
proof -
  from assms obtain i t where
    "z_string_min1 (field ''id'' raw) = Some i" "z_string_min1 (field ''templateId'' raw) = Some t"
    "uv_id input = i" "uv_templateId input = t"
    by (auto simp: updatePromptVariable_schema_def bind_eq_Some_conv split: if_splits)
  then show ?thesis
    by (auto dest: z_string_min1_Some)
qed

lemma updatePromptVariable_handler_Inr:
  assumes "updatePromptVariable_handler input ctx s = (Inr result, s')"
  shows "\<exists>existing old.
           existing \<in> set (PromptVariables s) \<and> v_id existing = uv_id input \<and>
           v_templateId existing = uv_templateId input \<and>
           old \<in> set (PromptVariables s) \<and> v_id old = uv_id input \<and>
           result = Some (updatePromptVariable_set input old) \<and>
           PromptVariables s' =
             map (\<lambda>r. if v_id r = uv_id input then updatePromptVariable_set input r else r)
                 (PromptVariables s) \<and>
           PromptCollections s' = PromptCollections s \<and> PromptTemplates s' = PromptTemplates s"
proof -
  from assms obtain u where u: "requireUser ctx = Inr u"
    by (cases "requireUser ctx") (auto simp: updatePromptVariable_handler_def)
  from assms u obtain tpl s1 where
    g: "getOwnedTemplate (uv_templateId input) (user_id u) s = (Inr tpl, s1)"
    by (cases "getOwnedTemplate (uv_templateId input) (user_id u) s")
       (auto simp: updatePromptVariable_handler_def split: sum.splits)
  from getOwnedTemplate_eq [OF g] have s1: "s1 = issue (SELECT Templates) s" .
  let ?f = "filter (\<lambda>r. v_id r = uv_id input \<and> v_templateId r = uv_templateId input)
              (PromptVariables s)"
  from assms u g s1 obtain existing where ex: "first_row ?f = Some existing"
    by (cases "first_row ?f")
       (auto simp: updatePromptVariable_handler_def select_variables_def)
  from first_row_filter_Some [OF ex]
  have e: "existing \<in> set (PromptVariables s)" "v_id existing = uv_id input"
    "v_templateId existing = uv_templateId input"
    by simp_all
  let ?ret = "map (updatePromptVariable_set input)
                (filter (\<lambda>r. v_id r = uv_id input) (PromptVariables s))"
  from assms u g s1 ex
  have res: "result = first_row ?ret"
    and tab: "PromptVariables s' =
                map (\<lambda>r. if v_id r = uv_id input then updatePromptVariable_set input r else r)
                    (PromptVariables s)"
    and other: "PromptCollections s' = PromptCollections s" "PromptTemplates s' = PromptTemplates s"
    by (auto simp: updatePromptVariable_handler_def select_variables_def update_variables_def
        update_where_def)
  have "\<exists>y. first_row ?ret = Some y"
    using e(1,2) by (rule first_row_map_filter_ex)
  then obtain y where y: "first_row ?ret = Some y" ..
  have "\<exists>x\<in>set (PromptVariables s). v_id x = uv_id input \<and> y = updatePromptVariable_set input x"
    using y by (rule first_row_map_filter)
  then obtain old where
    old: "old \<in> set (PromptVariables s)" "v_id old = uv_id input"
      "y = updatePromptVariable_set input old"
    by (elim bexE conjE)
  from res y old(3) have r: "result = Some (updatePromptVariable_set input old)"
    by simp
  show ?thesis
    apply (rule exI [of _ existing])
    apply (rule exI [of _ old])
    apply (simp only: e old(1,2) r tab other)
    done
qed

text \<open>
  Claim C9. A successful updatePromptVariable changes no row's id, templateId or
  createdAt: the three columns of the table read the same before and after. The
  returned row is the rewritten target, whose id is the one given; its id, templateId
  and createdAt are those of the row it replaces, so no variable moves to another
  template. With unique keys that templateId is the one given in the request.
\<close>

theorem updatePromptVariable_frame:
  assumes "updatePromptVariable raw ctx s = (Inr result, s')"
  shows "map v_id (PromptVariables s') = map v_id (PromptVariables s) \<and>
         map v_templateId (PromptVariables s') = map v_templateId (PromptVariables s) \<and>
         map v_createdAt (PromptVariables s') = map v_createdAt (PromptVariables s) \<and>
         (\<exists>old new.
            old \<in> set (PromptVariables s) \<and> field ''id'' raw = JStr (v_id old) \<and>
            result = Some new \<and> new \<in> set (PromptVariables s') \<and>
            v_id new = v_id old \<and> v_templateId new = v_templateId old \<and>
            v_createdAt new = v_createdAt old \<and>
            (keys_ok s \<longrightarrow> field ''templateId'' raw = JStr (v_templateId old)))"
proof -
  from assms obtain input where
    sch: "updatePromptVariable_schema raw = Some input" and
    h: "updatePromptVariable_handler input ctx s = (Inr result, s')"
    by (cases "updatePromptVariable_schema raw") (auto simp: updatePromptVariable_def)
  note f = updatePromptVariable_schema_Some [OF sch]
  from updatePromptVariable_handler_Inr [OF h] obtain existing old where
    e: "existing \<in> set (PromptVariables s)" "v_id existing = uv_id input"
       "v_templateId existing = uv_templateId input"
    and old: "old \<in> set (PromptVariables s)" "v_id old = uv_id input"
       "result = Some (updatePromptVariable_set input old)"
    and tab: "PromptVariables s' =
                map (\<lambda>r. if v_id r = uv_id input then updatePromptVariable_set input r else r)
                    (PromptVariables s)"
    by blast
  let ?new = "updatePromptVariable_set input old"
  have m1: "map v_id (PromptVariables s') = map v_id (PromptVariables s)"
    unfolding tab by (simp add: updatePromptVariable_set_keeps cong: if_cong)
  have m2: "map v_templateId (PromptVariables s') = map v_templateId (PromptVariables s)"
    unfolding tab by (simp add: updatePromptVariable_set_keeps cong: if_cong)
  have m3: "map v_createdAt (PromptVariables s') = map v_createdAt (PromptVariables s)"
    unfolding tab by (simp add: updatePromptVariable_set_keeps cong: if_cong)
  have mem: "?new \<in> set (PromptVariables s')"
    unfolding tab using old(1,2) by (auto simp: image_iff intro!: bexI [of _ old])
  have k: "field ''templateId'' raw = JStr (v_templateId old)" if "keys_ok s"
  proof -
    from that have "distinct (map v_id (PromptVariables s))"
      by (simp add: keys_ok_def)
    from key_unique [OF this e(1) old(1)] old(2) e(2) have "old = existing"
      by simp
    with e(3) f show ?thesis by simp
  qed
  have i: "field ''id'' raw = JStr (v_id old)"
    using f old(2) by simp
  from m1 m2 m3 old(1) i old(3) mem k show ?thesis
    by (auto simp: updatePromptVariable_set_keeps)
qed

lemma updatePromptVariable_label_request:
  "updatePromptVariable
     (JObj [(''id'', JStr ''v1''), (''templateId'', JStr ''t1''), (''label'', JStr ''Subject'')])
     alice demo_db =
   (Inr (Some (demo_v1\<lparr>v_label := Some ''Subject''\<rparr>)),
    demo_db\<lparr>PromptVariables := [demo_v1\<lparr>v_label := Some ''Subject''\<rparr>, demo_v2],
            statements := [SELECT Templates, SELECT Variables, UPDATE Variables]\<rparr>)"
  by (simp add: updatePromptVariable_def updatePromptVariable_schema_def schema_defs
      updatePromptVariable_handler_def requireUser_alice getOwnedTemplate_def
      updatePromptVariable_set_def store_defs demo_defs)

theorem updatePromptVariable_frame_witness:
  "\<exists>new s'.
     updatePromptVariable
       (JObj [(''id'', JStr ''v1''), (''templateId'', JStr ''t1''), (''label'', JStr ''Subject'')])
       alice demo_db = (Inr (Some new), s') \<and>
     v_label new = Some ''Subject'' \<and>
     v_id new = ''v1'' \<and> v_templateId new = ''t1'' \<and> v_createdAt new = 6 \<and>
     map v_id (PromptVariables s') = [''v1'', ''v2''] \<and>
     map v_templateId (PromptVariables s') = [''t1'', ''t2''] \<and>
     map v_createdAt (PromptVariables s') = [6, 7]"
proof -
  note r = updatePromptVariable_frame [OF updatePromptVariable_label_request]
  have m: "map v_id (PromptVariables demo_db) = [''v1'', ''v2'']"
    "map v_templateId (PromptVariables demo_db) = [''t1'', ''t2'']"
    "map v_createdAt (PromptVariables demo_db) = [6, 7]"
    by (simp_all add: demo_defs)
  have n: "v_label (demo_v1\<lparr>v_label := Some ''Subject''\<rparr>) = Some ''Subject''"
    "v_id (demo_v1\<lparr>v_label := Some ''Subject''\<rparr>) = ''v1''"
    "v_templateId (demo_v1\<lparr>v_label := Some ''Subject''\<rparr>) = ''t1''"
    "v_createdAt (demo_v1\<lparr>v_label := Some ''Subject''\<rparr>) = 6"
    by (simp_all add: demo_v1_def)
  from r [THEN conjunct1] r [THEN conjunct2, THEN conjunct1]
       r [THEN conjunct2, THEN conjunct2, THEN conjunct1] m n
  show ?thesis
    unfolding updatePromptVariable_label_request by simp
qed

subsection \<open>Updating a template\<close>

lemma updateTemplate_schema_Some:
  assumes "updateTemplate_schema raw = Some input"
  shows "field ''id'' raw = JStr (ut_id input) \<and>
         ((field ''collectionId'' raw = JUndefined \<and> ut_collectionId input = Undefined) \<or>
          (\<exists>c. field ''collectionId'' raw = JStr c \<and> ut_collectionId input = Defined c))"
proof -
  from assms obtain i c where
    p: "z_string_min1 (field ''id'' raw) = Some i"
       "z_optional z_string (field ''collectionId'' raw) = Some c"
       "ut_id input = i"
       "ut_collectionId input = (case c of None \<Rightarrow> Undefined | Some x \<Rightarrow> Defined x)"
    by (auto simp: updateTemplate_schema_def bind_eq_Some_conv split: if_splits)
  from z_string_min1_Some [OF p(1)] z_optional_string [OF p(2)] p(3,4)
  show ?thesis
    by auto
qed

lemma updateTemplate_set_collectionId:
  "ut_collectionId input \<noteq> Null \<Longrightarrow> t_collectionId r \<noteq> None \<Longrightarrow>
   t_collectionId (updateTemplate_set input now r) \<noteq> None"
  by (cases "ut_collectionId input") (simp_all add: updateTemplate_set_def)

lemma updateTemplate_handler_cases:
  assumes "updateTemplate_handler input ctx now s = (res, s')"
  shows "(\<exists>e. res = Inl e \<and> PromptTemplates s' = PromptTemplates s) \<or>
         (\<exists>u result. res = Inr result \<and> requireUser ctx = Inr u \<and>
            (\<forall>c. ut_collectionId input = Defined c \<longrightarrow>
               (\<exists>col\<in>set (PromptCollections s). c_id col = c \<and> c_userId col = user_id u) \<and>
               statements s' =
                 statements s @ [SELECT Templates, SELECT Collections, UPDATE Templates]) \<and>
            PromptTemplates s' =
              map (\<lambda>r. if t_id r = ut_id input then updateTemplate_set input now r else r)
                  (PromptTemplates s))"
proof (cases "requireUser ctx")
  case (Inl e)
  with assms show ?thesis
    by (auto simp: updateTemplate_handler_def)
next
  case u: (Inr u)
  obtain tr s1 where g: "getOwnedTemplate (ut_id input) (user_id u) s = (tr, s1)"
    by (cases "getOwnedTemplate (ut_id input) (user_id u) s")
  from getOwnedTemplate_eq [OF g] have s1: "s1 = issue (SELECT Templates) s" .
  show ?thesis
  proof (cases tr)
    case (Inl e)
    with assms u g s1 show ?thesis
      by (auto simp: updateTemplate_handler_def)
  next
    case tpl: (Inr template)
    define chk where "chk =
      (case ut_collectionId input of
         Defined c \<Rightarrow>
           (case getOwnedCollection c (user_id u) s1 of
              (Inl e, s2) \<Rightarrow> (Inl e, s2)
            | (Inr owned, s2) \<Rightarrow> (Inr (), s2))
       | _ \<Rightarrow> (Inr (), s1))"
    obtain cr s2 where c: "chk = (cr, s2)"
      by (cases chk)
    have s2_tab: "PromptTemplates s2 = PromptTemplates s"
      using c s1
      by (auto simp: chk_def split: nullable.splits prod.splits sum.splits
               dest!: getOwnedCollection_eq)
    from assms u g tpl c
    have run: "(case cr of
                  Inl e \<Rightarrow> (Inl e, s2)
                | Inr _ \<Rightarrow>
                    (case update_templates (\<lambda>r. t_id r = ut_id input)
                                           (updateTemplate_set input now) s2 of
                       (returned, s3) \<Rightarrow> (Inr (first_row returned), s3))) = (res, s')"
      by (simp add: updateTemplate_handler_def chk_def [symmetric])
    show ?thesis
    proof (cases cr)
      case (Inl e)
      with run s2_tab show ?thesis
        by auto
    next
      case ok: (Inr x)
      have owned: "(\<exists>col\<in>set (PromptCollections s). c_id col = cid \<and> c_userId col = user_id u) \<and>
                   s2 = issue (SELECT Collections) (issue (SELECT Templates) s)"
        if "ut_collectionId input = Defined cid" for cid
      proof -
        from that c ok s1 obtain col where
          "getOwnedCollection cid (user_id u) (issue (SELECT Templates) s) = (Inr col, s2)"
          by (auto simp: chk_def split: prod.splits sum.splits)
        from getOwnedCollection_Inr [OF this] show ?thesis
          by auto
      qed
      from run ok
      have r: "res = Inr (first_row (map (updateTemplate_set input now)
                                        (filter (\<lambda>r. t_id r = ut_id input) (PromptTemplates s2))))"
        and s': "s' = (issue (UPDATE Templates) s2)
                        \<lparr>PromptTemplates :=
                           map (\<lambda>r. if t_id r = ut_id input
                                    then updateTemplate_set input now r else r)
                               (PromptTemplates s2)\<rparr>"
        by (auto simp: update_templates_def update_where_def)
      have st: "statements s' =
                  statements s @ [SELECT Templates, SELECT Collections, UPDATE Templates]"
        if "ut_collectionId input = Defined cid" for cid
        using owned [OF that] s' by (simp add: issue_def)
      have tab: "PromptTemplates s' =
                   map (\<lambda>r. if t_id r = ut_id input then updateTemplate_set input now r else r)
                       (PromptTemplates s)"
        using s' s2_tab by simp
      from r u owned st tab show ?thesis
        by blast
    qed
  qed
qed

text \<open>
  Claim C10. An updateTemplate input accepted by the schema never carries a null
  collectionId: the field is either absent or a string, and a request with
  collectionId null is rejected with VALIDATION. Whenever a successful call carried a
  collectionId, it is a string naming a collection owned by the caller, and the
  statements issued are the template lookup, the collection lookup, then the update.
  A failed call leaves the templates as they were. In every case, a template whose
  collectionId was set before the call still has one after it.
\<close>

theorem updateTemplate_collectionId_not_cleared:
  "(\<forall>input. updateTemplate_schema raw = Some input \<longrightarrow>
      ut_collectionId input \<noteq> Null \<and>
      (field ''collectionId'' raw = JUndefined \<and> ut_collectionId input = Undefined \<or>
       (\<exists>c. field ''collectionId'' raw = JStr c \<and> ut_collectionId input = Defined c))) \<and>
   (field ''collectionId'' raw = JNull \<longrightarrow> updateTemplate raw ctx now s = (Inl VALIDATION, s)) \<and>
   (\<forall>result s'.
      updateTemplate raw ctx now s = (Inr result, s') \<and> field ''collectionId'' raw \<noteq> JUndefined \<longrightarrow>
      (\<exists>c u col.
         field ''collectionId'' raw = JStr c \<and> requireUser ctx = Inr u \<and>
         col \<in> set (PromptCollections s) \<and> c_id col = c \<and> c_userId col = user_id u \<and>
         statements s' = statements s @ [SELECT Templates, SELECT Collections, UPDATE Templates])) \<and>
   (\<forall>e s'. updateTemplate raw ctx now s = (Inl e, s') \<longrightarrow> PromptTemplates s' = PromptTemplates s) \<and>
   length (PromptTemplates (snd (updateTemplate raw ctx now s))) = length (PromptTemplates s) \<and>
   (\<forall>i<length (PromptTemplates s).
      t_collectionId (PromptTemplates s ! i) \<noteq> None \<longrightarrow>
      t_collectionId (PromptTemplates (snd (updateTemplate raw ctx now s)) ! i) \<noteq> None)"
proof -
  have a: "ut_collectionId input \<noteq> Null \<and>
      (field ''collectionId'' raw = JUndefined \<and> ut_collectionId input = Undefined \<or>
       (\<exists>c. field ''collectionId'' raw = JStr c \<and> ut_collectionId input = Defined c))"
    if "updateTemplate_schema raw = Some input" for input
    using updateTemplate_schema_Some [OF that] by auto
  have b: "updateTemplate raw ctx now s = (Inl VALIDATION, s)"
    if "field ''collectionId'' raw = JNull"
  proof (cases "updateTemplate_schema raw")
    case None
    then show ?thesis by (simp add: updateTemplate_def)
  next
    case (Some input)
    from updateTemplate_schema_Some [OF this] that show ?thesis by simp
  qed
  have c: "\<exists>c u col.
         field ''collectionId'' raw = JStr c \<and> requireUser ctx = Inr u \<and>
         col \<in> set (PromptCollections s) \<and> c_id col = c \<and> c_userId col = user_id u \<and>
         statements s' = statements s @ [SELECT Templates, SELECT Collections, UPDATE Templates]"
    if "updateTemplate raw ctx now s = (Inr result, s') \<and> field ''collectionId'' raw \<noteq> JUndefined"
    for result s'
  proof -
    from that obtain input where
      sch: "updateTemplate_schema raw = Some input" and
      h: "updateTemplate_handler input ctx now s = (Inr result, s')"
      by (cases "updateTemplate_schema raw") (auto simp: updateTemplate_def)
    from updateTemplate_schema_Some [OF sch] that obtain cid where
      cid: "field ''collectionId'' raw = JStr cid" "ut_collectionId input = Defined cid"
      by auto
    from updateTemplate_handler_cases [OF h] cid(2) obtain u col where
      "requireUser ctx = Inr u" "col \<in> set (PromptCollections s)" "c_id col = cid"
      "c_userId col = user_id u"
      "statements s' = statements s @ [SELECT Templates, SELECT Collections, UPDATE Templates]"
      by auto
    with cid(1) show ?thesis by blast
  qed
  have d: "PromptTemplates s' = PromptTemplates s"
    if "updateTemplate raw ctx now s = (Inl e, s')" for e s'
  proof (cases "updateTemplate_schema raw")
    case None
    with that show ?thesis by (simp add: updateTemplate_def)
  next
    case (Some input)
    with that have "updateTemplate_handler input ctx now s = (Inl e, s')"
      by (simp add: updateTemplate_def)
    from updateTemplate_handler_cases [OF this] show ?thesis by auto
  qed
  let ?s' = "snd (updateTemplate raw ctx now s)"
  have e: "length (PromptTemplates ?s') = length (PromptTemplates s) \<and>
      (\<forall>i<length (PromptTemplates s).
         t_collectionId (PromptTemplates s ! i) \<noteq> None \<longrightarrow>
         t_collectionId (PromptTemplates ?s' ! i) \<noteq> None)"
  proof (cases "updateTemplate_schema raw")
    case None
    then show ?thesis by (simp add: updateTemplate_def)
  next
    case (Some input)
    obtain res s1 where h: "updateTemplate_handler input ctx now s = (res, s1)"
      by (cases "updateTemplate_handler input ctx now s")
    with Some have s1: "?s' = s1"
      by (simp add: updateTemplate_def)
    from a [OF Some] have nn: "ut_collectionId input \<noteq> Null"
      by simp
    from updateTemplate_handler_cases [OF h]
    have "PromptTemplates s1 = PromptTemplates s \<or>
          PromptTemplates s1 =
            map (\<lambda>r. if t_id r = ut_id input then updateTemplate_set input now r else r)
                (PromptTemplates s)"
      by auto
    then show ?thesis
      unfolding s1 using updateTemplate_set_collectionId [OF nn]
      by (auto simp: nth_map)
  qed
  from a b c d e show ?thesis
    by blast
qed

lemma updateTemplate_move_request:
  "updateTemplate (JObj [(''id'', JStr ''t3''), (''collectionId'', JStr ''c1'')]) alice 9 demo_db =
     (Inr (Some (demo_t3\<lparr>t_collectionId := Some ''c1'', t_updatedAt := 9\<rparr>)),
      demo_db\<lparr>PromptTemplates :=
                [demo_t1, demo_t2, demo_t3\<lparr>t_collectionId := Some ''c1'', t_updatedAt := 9\<rparr>],
              statements := [SELECT Templates, SELECT Collections, UPDATE Templates]\<rparr>)"
  by (simp add: updateTemplate_def updateTemplate_schema_def schema_defs
      updateTemplate_handler_def requireUser_alice getOwnedTemplate_def getOwnedCollection_def
      updateTemplate_set_def store_defs demo_defs)

lemma updateTemplate_handler_null_branch:
  "updateTemplate_handler
     \<lparr>ut_id = ''t1'', ut_collectionId = Null, ut_name = None, ut_description = None,
      ut_modelHint = None, ut_promptBody = None, ut_tags = None, ut_isFavorite = None\<rparr>
     alice 9 demo_db =
   (Inr (Some (demo_t1\<lparr>t_collectionId := None, t_updatedAt := 9\<rparr>)),
    demo_db\<lparr>PromptTemplates :=
              [demo_t1\<lparr>t_collectionId := None, t_updatedAt := 9\<rparr>, demo_t2, demo_t3],
            statements := [SELECT Templates, UPDATE Templates]\<rparr>)"
  by (simp add: updateTemplate_handler_def requireUser_alice getOwnedTemplate_def
      updateTemplate_set_def store_defs demo_defs)

theorem updateTemplate_collectionId_not_cleared_witness:
  "updateTemplate (JObj [(''id'', JStr ''t1''), (''collectionId'', JNull)]) alice 9 demo_db =
     (Inl VALIDATION, demo_db) \<and>
   t_collectionId (PromptTemplates demo_db ! 0) = Some ''c1'' \<and>
   t_collectionId
     (PromptTemplates
        (snd (updateTemplate (JObj [(''id'', JStr ''t1''), (''name'', JStr ''x'')]) alice 9 demo_db))
      ! 0) \<noteq> None \<and>
   statements
     (snd (updateTemplate (JObj [(''id'', JStr ''t3''), (''collectionId'', JStr ''c1'')])
             alice 9 demo_db)) =
     [SELECT Templates, SELECT Collections, UPDATE Templates]"
proof -
  let ?null = "JObj [(''id'', JStr ''t1''), (''collectionId'', JNull)]"
  let ?name = "JObj [(''id'', JStr ''t1''), (''name'', JStr ''x'')]"
  let ?move = "JObj [(''id'', JStr ''t3''), (''collectionId'', JStr ''c1'')]"
  note n = updateTemplate_collectionId_not_cleared [of ?null alice 9 demo_db]
  note k = updateTemplate_collectionId_not_cleared [of ?name alice 9 demo_db]
  note m = updateTemplate_collectionId_not_cleared [of ?move alice 9 demo_db]
  have fn: "field ''collectionId'' ?null = JNull"
    by (simp add: field_def)
  from n [THEN conjunct2, THEN conjunct1] fn
  have a: "updateTemplate ?null alice 9 demo_db = (Inl VALIDATION, demo_db)"
    by (rule mp)
  have b: "t_collectionId (PromptTemplates demo_db ! 0) = Some ''c1''"
    by (simp add: demo_defs)
  have l: "0 < length (PromptTemplates demo_db)"
    by (simp add: demo_defs)
  from k [THEN conjunct2, THEN conjunct2, THEN conjunct2, THEN conjunct2, THEN conjunct2] l b
  have c: "t_collectionId (PromptTemplates (snd (updateTemplate ?name alice 9 demo_db)) ! 0) \<noteq> None"
    by simp
  have fm: "field ''collectionId'' ?move \<noteq> JUndefined"
    by (simp add: field_def)
  obtain result s' where mv: "updateTemplate ?move alice 9 demo_db = (Inr result, s')"
    using updateTemplate_move_request by blast
  from m [THEN conjunct2, THEN conjunct2, THEN conjunct1] mv fm
  have "statements s' = statements demo_db @ [SELECT Templates, SELECT Collections, UPDATE Templates]"
    by blast
  with mv have d: "statements (snd (updateTemplate ?move alice 9 demo_db)) =
                     [SELECT Templates, SELECT Collections, UPDATE Templates]"
    by (simp add: demo_db_def)
  from a b c d show ?thesis
    by (intro conjI)
qed

subsection \<open>Deleting a variable\<close>

lemma deletePromptVariable_schema_Some:
  "deletePromptVariable_schema raw = Some input \<Longrightarrow>
   field ''id'' raw = JStr (dv_id input) \<and> field ''templateId'' raw = JStr (dv_templateId input)"
  by (auto simp: deletePromptVariable_schema_def bind_eq_Some_conv split: if_splits
           dest: z_string_min1_Some)

lemma deletePromptVariable_handler_eq:
  assumes "requireUser ctx = Inr u"
  shows "deletePromptVariable_handler input ctx s =
     (case fst (getOwnedTemplate (dv_templateId input) (user_id u) s) of
        Inl e \<Rightarrow> (Inl e, issue (SELECT Templates) s)
      | Inr template \<Rightarrow>
          (if filter (\<lambda>r. v_id r = dv_id input \<and> v_templateId r = dv_templateId input)
                     (PromptVariables s) = []
           then Inl (ActionError NOT_FOUND ''Prompt variable not found.'')
           else Inr (),
           (issue (DELETE Variables) (issue (SELECT Templates) s))
             \<lparr>PromptVariables :=
                filter (\<lambda>r. \<not> (v_id r = dv_id input \<and> v_templateId r = dv_templateId input))
                       (PromptVariables s)\<rparr>))"
proof -
  obtain tr s1 where g: "getOwnedTemplate (dv_templateId input) (user_id u) s = (tr, s1)"
    by (cases "getOwnedTemplate (dv_templateId input) (user_id u) s")
  from getOwnedTemplate_eq [OF g] have s1: "s1 = issue (SELECT Templates) s" .
  show ?thesis
    using assms g s1
    by (cases tr)
       (simp_all add: deletePromptVariable_handler_def delete_variables_def delete_where_def)
qed

text \<open>
  Claim C4, as amended. For an accepted input and a signed-in caller,
  deletePromptVariable first resolves ownership of the given templateId, and a failure
  of the resolver (NOT_FOUND or FORBIDDEN) is the failure of the operation, before any
  delete is issued. Otherwise it removes exactly the rows matching both id and
  templateId, and fails with NOT_FOUND when there is none. In particular, with unique
  keys, deleting a variable under a templateId that is not its parent's leaves the
  table as it was and fails: with FORBIDDEN when the given template belongs to another
  user, and with NOT_FOUND otherwise.
\<close>

theorem deletePromptVariable_effect:
  assumes "deletePromptVariable_schema raw = Some input" and "requireUser ctx = Inr u"
  shows
   "(\<forall>e. fst (getOwnedTemplate (dv_templateId input) (user_id u) s) = Inl e \<longrightarrow>
       deletePromptVariable raw ctx s = (Inl e, issue (SELECT Templates) s)) \<and>
    (\<forall>template. fst (getOwnedTemplate (dv_templateId input) (user_id u) s) = Inr template \<longrightarrow>
       PromptVariables (snd (deletePromptVariable raw ctx s)) =
         filter (\<lambda>r. \<not> (v_id r = dv_id input \<and> v_templateId r = dv_templateId input))
                (PromptVariables s) \<and>
       statements (snd (deletePromptVariable raw ctx s)) =
         statements s @ [SELECT Templates, DELETE Variables] \<and>
       fst (deletePromptVariable raw ctx s) =
         (if \<exists>r\<in>set (PromptVariables s).
               v_id r = dv_id input \<and> v_templateId r = dv_templateId input
          then Inr ()
          else Inl (ActionError NOT_FOUND ''Prompt variable not found.''))) \<and>
    (keys_ok s \<longrightarrow>
       (\<forall>v\<in>set (PromptVariables s).
          v_id v = dv_id input \<and> v_templateId v \<noteq> dv_templateId input \<longrightarrow>
          PromptVariables (snd (deletePromptVariable raw ctx s)) = PromptVariables s \<and>
          (\<exists>m. fst (deletePromptVariable raw ctx s) =
                 Inl (ActionError
                        (if \<exists>t\<in>set (PromptTemplates s).
                              t_id t = dv_templateId input \<and> t_userId t \<noteq> user_id u
                         then FORBIDDEN else NOT_FOUND) m))))"
proof -
  let ?tid = "dv_templateId input"
  let ?match = "\<lambda>r. v_id r = dv_id input \<and> v_templateId r = ?tid"
  have d: "deletePromptVariable raw ctx s = deletePromptVariable_handler input ctx s"
    using assms(1) by (simp add: deletePromptVariable_def)
  note h = deletePromptVariable_handler_eq [OF assms(2), of input s]
  have p1: "deletePromptVariable raw ctx s = (Inl e, issue (SELECT Templates) s)"
    if "fst (getOwnedTemplate ?tid (user_id u) s) = Inl e" for e
    using that by (simp add: d h)
  have p2: "PromptVariables (snd (deletePromptVariable raw ctx s)) =
              filter (\<lambda>r. \<not> ?match r) (PromptVariables s) \<and>
            statements (snd (deletePromptVariable raw ctx s)) =
              statements s @ [SELECT Templates, DELETE Variables] \<and>
            fst (deletePromptVariable raw ctx s) =
              (if \<exists>r\<in>set (PromptVariables s). ?match r then Inr ()
               else Inl (ActionError NOT_FOUND ''Prompt variable not found.''))"
    if "fst (getOwnedTemplate ?tid (user_id u) s) = Inr template" for template
    using that by (simp add: d h filter_empty_conv issue_def)
  have p3: "PromptVariables (snd (deletePromptVariable raw ctx s)) = PromptVariables s \<and>
          (\<exists>m. fst (deletePromptVariable raw ctx s) =
                 Inl (ActionError
                        (if \<exists>t\<in>set (PromptTemplates s). t_id t = ?tid \<and> t_userId t \<noteq> user_id u
                         then FORBIDDEN else NOT_FOUND) m))"
    if k: "keys_ok s" and v: "v \<in> set (PromptVariables s)" "v_id v = dv_id input"
       "v_templateId v \<noteq> ?tid" for v
  proof -
    from k have dv: "distinct (map v_id (PromptVariables s))"
      and dt: "distinct (map t_id (PromptTemplates s))"
      by (simp_all add: keys_ok_def)
    have none: "\<forall>r\<in>set (PromptVariables s). \<not> ?match r"
    proof
      fix r assume r: "r \<in> set (PromptVariables s)"
      show "\<not> ?match r"
      proof
        assume "?match r"
        with key_unique [OF dv v(1) r] v(2) have "r = v" by simp
        with \<open>?match r\<close> v(3) show False by simp
      qed
    qed
    show ?thesis
    proof (cases "\<exists>t\<in>set (PromptTemplates s). t_id t = ?tid")
      case False
      then have "\<forall>r\<in>set (PromptTemplates s). t_id r \<noteq> ?tid"
        by blast
      from getOwnedTemplate_absent [OF this, of "user_id u"] False show ?thesis
        by (auto simp: d h)
    next
      case True
      then obtain t where t: "t \<in> set (PromptTemplates s)" "t_id t = ?tid"
        by blast
      have only: "t' = t" if "t' \<in> set (PromptTemplates s)" "t_id t' = ?tid" for t'
        using key_unique [OF dt t(1) that(1)] that(2) t(2) by simp
      note g = getOwnedTemplate_present [OF dt t(1), of "user_id u", unfolded t(2)]
      show ?thesis
      proof (cases "t_userId t \<noteq> user_id u")
        case True
        with t have "\<exists>t\<in>set (PromptTemplates s). t_id t = ?tid \<and> t_userId t \<noteq> user_id u"
          by blast
        with g True show ?thesis
          by (simp add: d h)
      next
        case False
        with only have "\<not> (\<exists>t\<in>set (PromptTemplates s). t_id t = ?tid \<and> t_userId t \<noteq> user_id u)"
          by blast
        moreover from none have "filter ?match (PromptVariables s) = []"
          by (simp add: filter_empty_conv)
        moreover from none have "filter (\<lambda>r. \<not> ?match r) (PromptVariables s) = PromptVariables s"
          by (simp add: filter_id_conv)
        ultimately show ?thesis
          using g False by (simp add: d h)
      qed
    qed
  qed
  from p1 p2 p3 show ?thesis
    by blast
qed

text \<open>
  The failure is not always NOT_FOUND: alice deletes her variable \<open>v1\<close> (parent \<open>t1\<close>)
  under the templateId of bob's template \<open>t2\<close>, and the resolver answers FORBIDDEN.
\<close>

theorem deletePromptVariable_foreign_template_forbidden:
  "demo_v1 \<in> set (PromptVariables demo_db) \<and> v_id demo_v1 = ''v1'' \<and>
   v_templateId demo_v1 \<noteq> ''t2'' \<and>
   deletePromptVariable (JObj [(''id'', JStr ''v1''), (''templateId'', JStr ''t2'')]) alice demo_db =
     (Inl (ActionError FORBIDDEN ''You do not have access to this template.''),
      issue (SELECT Templates) demo_db)"
  by (simp add: deletePromptVariable_def deletePromptVariable_schema_def schema_defs
      deletePromptVariable_handler_def requireUser_alice getOwnedTemplate_def
      store_defs demo_defs)

lemma deletePromptVariable_schema_demo:
  "deletePromptVariable_schema (JObj [(''id'', JStr ''v1''), (''templateId'', JStr t)]) =
     (if t = [] then None else Some \<lparr>dv_id = ''v1'', dv_templateId = t\<rparr>)"
  by (cases t) (simp_all add: deletePromptVariable_schema_def schema_defs)

theorem deletePromptVariable_effect_witness:
  "PromptVariables
     (snd (deletePromptVariable (JObj [(''id'', JStr ''v1''), (''templateId'', JStr ''t1'')])
             alice demo_db)) = [demo_v2] \<and>
   fst (deletePromptVariable (JObj [(''id'', JStr ''v1''), (''templateId'', JStr ''t1'')])
          alice demo_db) = Inr () \<and>
   PromptVariables
     (snd (deletePromptVariable (JObj [(''id'', JStr ''v1''), (''templateId'', JStr ''t3'')])
             alice demo_db)) = [demo_v1, demo_v2] \<and>
   (\<exists>m. fst (deletePromptVariable (JObj [(''id'', JStr ''v1''), (''templateId'', JStr ''t3'')])
               alice demo_db) = Inl (ActionError NOT_FOUND m)) \<and>
   PromptVariables
     (snd (deletePromptVariable (JObj [(''id'', JStr ''v1''), (''templateId'', JStr ''t2'')])
             alice demo_db)) = [demo_v1, demo_v2] \<and>
   (\<exists>m. fst (deletePromptVariable (JObj [(''id'', JStr ''v1''), (''templateId'', JStr ''t2'')])
               alice demo_db) = Inl (ActionError FORBIDDEN m))"
proof -
  let ?own = "JObj [(''id'', JStr ''v1''), (''templateId'', JStr ''t1'')]"
  let ?other = "JObj [(''id'', JStr ''v1''), (''templateId'', JStr ''t3'')]"
  let ?foreign = "JObj [(''id'', JStr ''v1''), (''templateId'', JStr ''t2'')]"
  have s1: "deletePromptVariable_schema ?own = Some \<lparr>dv_id = ''v1'', dv_templateId = ''t1''\<rparr>"
    and s3: "deletePromptVariable_schema ?other = Some \<lparr>dv_id = ''v1'', dv_templateId = ''t3''\<rparr>"
    and s2: "deletePromptVariable_schema ?foreign = Some \<lparr>dv_id = ''v1'', dv_templateId = ''t2''\<rparr>"
    by (simp_all add: deletePromptVariable_schema_demo)
  note own = deletePromptVariable_effect [OF s1 requireUser_alice, of demo_db]
  note other = deletePromptVariable_effect [OF s3 requireUser_alice, of demo_db]
  note foreign = deletePromptVariable_effect [OF s2 requireUser_alice, of demo_db]
  have g: "fst (getOwnedTemplate ''t1'' ''alice'' demo_db) = Inr demo_t1"
    by (simp add: getOwnedTemplate_def select_templates_def demo_defs)
  have v: "demo_v1 \<in> set (PromptVariables demo_db)" "v_id demo_v1 = ''v1''"
    "v_templateId demo_v1 \<noteq> ''t3''" "v_templateId demo_v1 \<noteq> ''t2''"
    by (simp_all add: demo_defs)
  have vars: "PromptVariables demo_db = [demo_v1, demo_v2]"
    by (simp add: demo_db_def)
  have f: "filter (\<lambda>r. \<not> (v_id r = ''v1'' \<and> v_templateId r = ''t1'')) (PromptVariables demo_db) =
             [demo_v2]"
    "\<exists>r\<in>set (PromptVariables demo_db). v_id r = ''v1'' \<and> v_templateId r = ''t1''"
    by (simp_all add: demo_defs)
  have t3: "\<not> (\<exists>t\<in>set (PromptTemplates demo_db). t_id t = ''t3'' \<and> t_userId t \<noteq> ''alice'')"
    and t2: "\<exists>t\<in>set (PromptTemplates demo_db). t_id t = ''t2'' \<and> t_userId t \<noteq> ''alice''"
    by (simp_all add: demo_defs)
  from own [THEN conjunct2, THEN conjunct1] g f
  have a: "PromptVariables (snd (deletePromptVariable ?own alice demo_db)) = [demo_v2] \<and>
           fst (deletePromptVariable ?own alice demo_db) = Inr ()"
    by simp
  from other [THEN conjunct2, THEN conjunct2] keys_ok_demo v(1,2,3) t3
  have b: "PromptVariables (snd (deletePromptVariable ?other alice demo_db)) = [demo_v1, demo_v2] \<and>
           (\<exists>m. fst (deletePromptVariable ?other alice demo_db) = Inl (ActionError NOT_FOUND m))"
    unfolding vars [symmetric] by fastforce
  from foreign [THEN conjunct2, THEN conjunct2] keys_ok_demo v(1,2,4) t2
  have c: "PromptVariables (snd (deletePromptVariable ?foreign alice demo_db)) = [demo_v1, demo_v2] \<and>
           (\<exists>m. fst (deletePromptVariable ?foreign alice demo_db) = Inl (ActionError FORBIDDEN m))"
    unfolding vars [symmetric] by fastforce
  from a b c show ?thesis
    by blast
qed

subsection \<open>Collections across calls\<close>

lemma getOwnedTemplate_collections [simp]:
  "PromptCollections (snd (getOwnedTemplate i u s)) = PromptCollections s"
  by (simp add: getOwnedTemplate_store)

lemma getOwnedCollection_collections [simp]:
  "PromptCollections (snd (getOwnedCollection i u s)) = PromptCollections s"
  by (simp add: getOwnedCollection_store)

lemma listCollections_collections:
  "PromptCollections (snd (listCollections raw ctx s)) = PromptCollections s"
  by (auto simp: listCollections_def listCollections_handler_def select_collections_def
           split: option.splits sum.splits)

lemma listTemplates_collections:
  "PromptCollections (snd (listTemplates raw ctx s)) = PromptCollections s"
  by (auto simp: listTemplates_def listTemplates_handler_def select_templates_def Let_def
           split: option.splits sum.splits)

lemma createCollection_outcome:
  assumes "createCollection raw ctx uuid now s = (res, s')"
  shows "(\<exists>e. res = Inl e \<and> PromptCollections s' = PromptCollections s) \<or>
         (\<exists>u C. res = Inr (Some C) \<and> requireUser ctx = Inr u \<and> c_id C = uuid \<and>
                 c_userId C = user_id u \<and> c_createdAt C = now \<and> c_updatedAt C = now \<and>
                 uuid \<notin> c_id ` set (PromptCollections s) \<and>
                 PromptCollections s' = PromptCollections s @ [C])"
proof (cases "createCollection_schema raw")
  case None
  with assms show ?thesis
    by (auto simp: createCollection_def)
next
  case (Some input)
  show ?thesis
  proof (cases "requireUser ctx")
    case (Inl e)
    with assms Some show ?thesis
      by (auto simp: createCollection_def createCollection_handler_def)
  next
    case (Inr u)
    with assms Some show ?thesis
      by (auto simp: createCollection_def createCollection_handler_def insert_collection_def
          insert_row_def split: if_splits)
  qed
qed

lemmas resolver_defs = getOwnedTemplate_def getOwnedCollection_def
  select_templates_def select_collections_def

lemma createTemplate_collections:
  "PromptCollections (snd (createTemplate raw ctx uuid now s)) = PromptCollections s"
  by (auto simp: createTemplate_def createTemplate_handler_def resolver_defs
        insert_template_def insert_row_def
      split: option.splits sum.splits if_splits)

lemma updateTemplate_collections:
  "PromptCollections (snd (updateTemplate raw ctx now s)) = PromptCollections s"
  by (auto simp: updateTemplate_def updateTemplate_handler_def resolver_defs
        update_templates_def update_where_def
      split: option.splits sum.splits if_splits nullable.splits)

lemma createPromptVariable_collections:
  "PromptCollections (snd (createPromptVariable raw ctx uuid now s)) = PromptCollections s"
  by (auto simp: createPromptVariable_def createPromptVariable_handler_def resolver_defs
        insert_variable_def insert_row_def
      split: option.splits sum.splits if_splits)

lemma updatePromptVariable_collections:
  "PromptCollections (snd (updatePromptVariable raw ctx s)) = PromptCollections s"
  by (auto simp: updatePromptVariable_def updatePromptVariable_handler_def resolver_defs
        select_variables_def update_variables_def update_where_def
      split: option.splits sum.splits if_splits)

lemma deletePromptVariable_collections:
  "PromptCollections (snd (deletePromptVariable raw ctx s)) = PromptCollections s"
  by (auto simp: deletePromptVariable_def deletePromptVariable_handler_def resolver_defs
        delete_variables_def delete_where_def
      split: option.splits sum.splits if_splits)

lemma listPromptVariables_collections:
  "PromptCollections (snd (listPromptVariables raw ctx s)) = PromptCollections s"
  by (auto simp: listPromptVariables_def listPromptVariables_handler_def resolver_defs
        select_variables_def
      split: option.splits sum.splits if_splits)

lemma updateCollection_collections:
  "PromptCollections (snd (updateCollection raw ctx now s)) = PromptCollections s \<or>
   (\<exists>input. PromptCollections (snd (updateCollection raw ctx now s)) =
      map (\<lambda>r. if c_id r = uc_id input then updateCollection_set input now r else r)
          (PromptCollections s))"
  by (auto simp: updateCollection_def updateCollection_handler_def resolver_defs
        update_collections_def update_where_def
      split: option.splits sum.splits if_splits)

lemma updateCollection_set_keeps:
  "c_id (updateCollection_set input now r) = c_id r"
  "c_userId (updateCollection_set input now r) = c_userId r"
  "c_createdAt (updateCollection_set input now r) = c_createdAt r"
  by (simp_all add: updateCollection_set_def)

lemma store_after_keeps_collection:
  assumes "\<exists>x\<in>set (PromptCollections s). c_id x = i \<and> c_userId x = u \<and> c_createdAt x = t"
  shows "\<exists>x\<in>set (PromptCollections (store_after ctx c s)).
           c_id x = i \<and> c_userId x = u \<and> c_createdAt x = t"
proof (cases c)
  case (CreateCollection raw uuid now)
  obtain res s' where r: "createCollection raw ctx uuid now s = (res, s')"
    by (cases "createCollection raw ctx uuid now s")
  from createCollection_outcome [OF r]
  have "PromptCollections s' = PromptCollections s \<or>
        (\<exists>C. PromptCollections s' = PromptCollections s @ [C])"
    by auto
  with assms r CreateCollection show ?thesis
    by auto
next
  case (UpdateCollection raw now)
  from assms obtain x where
    x: "x \<in> set (PromptCollections s)" "c_id x = i" "c_userId x = u" "c_createdAt x = t"
    by blast
  from updateCollection_collections [of raw ctx now s] show ?thesis
  proof
    assume "PromptCollections (snd (updateCollection raw ctx now s)) = PromptCollections s"
    with assms UpdateCollection show ?thesis by simp
  next
    assume "\<exists>input. PromptCollections (snd (updateCollection raw ctx now s)) =
      map (\<lambda>r. if c_id r = uc_id input then updateCollection_set input now r else r)
          (PromptCollections s)"
    then obtain input where
      m: "PromptCollections (snd (updateCollection raw ctx now s)) =
            map (\<lambda>r. if c_id r = uc_id input then updateCollection_set input now r else r)
                (PromptCollections s)"
      by blast
    let ?y = "if c_id x = uc_id input then updateCollection_set input now x else x"
    have "?y \<in> set (PromptCollections (snd (updateCollection raw ctx now s)))"
      unfolding m using x(1) by (simp only: set_map) (rule imageI)
    moreover have "c_id ?y = i \<and> c_userId ?y = u \<and> c_createdAt ?y = t"
      using x(2-4) by (simp add: updateCollection_set_keeps)
    ultimately show ?thesis
      using UpdateCollection by (simp only: store_after.simps) (rule bexI)
  qed
qed (use assms in \<open>simp_all add: listCollections_collections createTemplate_collections
       updateTemplate_collections listTemplates_collections createPromptVariable_collections
       updatePromptVariable_collections deletePromptVariable_collections
       listPromptVariables_collections\<close>)

lemma run_keeps_collection:
  "\<exists>x\<in>set (PromptCollections s). c_id x = i \<and> c_userId x = u \<and> c_createdAt x = t \<Longrightarrow>
   \<exists>x\<in>set (PromptCollections (run calls s)). c_id x = i \<and> c_userId x = u \<and> c_createdAt x = t"
proof (induction calls arbitrary: s)
  case Nil
  then show ?case by simp
next
  case (Cons a calls)
  obtain ctx c where a: "a = (ctx, c)"
    by (cases a)
  from store_after_keeps_collection [OF Cons.prems, of ctx c]
  have "\<exists>x\<in>set (PromptCollections (run calls (store_after ctx c s))).
          c_id x = i \<and> c_userId x = u \<and> c_createdAt x = t"
    by (rule Cons.IH)
  with a show ?case by simp
qed

lemma listCollections_eq:
  assumes "listCollections_schema raw \<noteq> None" and "requireUser ctx = Inr u"
  shows "listCollections raw ctx s =
           (Inr (filter (\<lambda>r. c_userId r = user_id u) (PromptCollections s),
                 length (filter (\<lambda>r. c_userId r = user_id u) (PromptCollections s))),
            issue (SELECT Collections) s)"
  using assms
  by (auto simp: listCollections_def listCollections_handler_def select_collections_def)

text \<open>
  Claim C8. A successful createCollection by user U returns the new collection C, owned
  by U. Any listCollections call on the resulting store returns items that are all
  owned by its caller, with total the number of items, and C is among them exactly
  when the caller is U. The same holds after any further sequence of calls by any
  callers: the listing of U still holds the collection with C's id and creation time
  (its updatable fields may have been rewritten since), and never a row of another
  owner.
\<close>

theorem created_collection_listed:
  assumes "createCollection raw ctx uuid now s = (Inr created, s1)"
  shows "\<exists>C u.
     created = Some C \<and> requireUser ctx = Inr u \<and> c_id C = uuid \<and> c_userId C = user_id u \<and>
     (\<forall>raw2 ctx2 u2.
        listCollections_schema raw2 \<noteq> None \<and> requireUser ctx2 = Inr u2 \<longrightarrow>
        (\<exists>items.
           fst (listCollections raw2 ctx2 s1) = Inr (items, length items) \<and>
           (C \<in> set items \<longleftrightarrow> user_id u2 = user_id u) \<and>
           (\<forall>x\<in>set items. c_userId x = user_id u2))) \<and>
     (\<forall>calls raw2 ctx2 u2.
        listCollections_schema raw2 \<noteq> None \<and> requireUser ctx2 = Inr u2 \<longrightarrow>
        (\<exists>items.
           fst (listCollections raw2 ctx2 (run calls s1)) = Inr (items, length items) \<and>
           (user_id u2 = user_id u \<longrightarrow>
              (\<exists>x\<in>set items. c_id x = c_id C \<and> c_createdAt x = c_createdAt C)) \<and>
           (\<forall>x\<in>set items. c_userId x = user_id u2)))"
proof -
  from createCollection_outcome [OF assms] obtain u C where
    c: "created = Some C" "requireUser ctx = Inr u" "c_id C = uuid" "c_userId C = user_id u"
       "PromptCollections s1 = PromptCollections s @ [C]"
    by auto
  have now: "\<exists>items.
           fst (listCollections raw2 ctx2 s1) = Inr (items, length items) \<and>
           (C \<in> set items \<longleftrightarrow> user_id u2 = user_id u) \<and>
           (\<forall>x\<in>set items. c_userId x = user_id u2)"
    if "listCollections_schema raw2 \<noteq> None \<and> requireUser ctx2 = Inr u2" for raw2 ctx2 u2
  proof -
    let ?items = "filter (\<lambda>r. c_userId r = user_id u2) (PromptCollections s1)"
    from that have "fst (listCollections raw2 ctx2 s1) = Inr (?items, length ?items)"
      by (simp add: listCollections_eq)
    moreover have "C \<in> set ?items \<longleftrightarrow> user_id u2 = user_id u"
      using c(4,5) by auto
    moreover have "\<forall>x\<in>set ?items. c_userId x = user_id u2"
      by simp
    ultimately show ?thesis
      by blast
  qed
  have later: "\<exists>items.
           fst (listCollections raw2 ctx2 (run calls s1)) = Inr (items, length items) \<and>
           (user_id u2 = user_id u \<longrightarrow>
              (\<exists>x\<in>set items. c_id x = c_id C \<and> c_createdAt x = c_createdAt C)) \<and>
           (\<forall>x\<in>set items. c_userId x = user_id u2)"
    if "listCollections_schema raw2 \<noteq> None \<and> requireUser ctx2 = Inr u2" for calls raw2 ctx2 u2
  proof -
    let ?s2 = "run calls s1"
    let ?items = "filter (\<lambda>r. c_userId r = user_id u2) (PromptCollections ?s2)"
    from that have l: "fst (listCollections raw2 ctx2 ?s2) = Inr (?items, length ?items)"
      by (simp add: listCollections_eq)
    have "\<exists>x\<in>set (PromptCollections s1).
            c_id x = c_id C \<and> c_userId x = user_id u \<and> c_createdAt x = c_createdAt C"
      using c(4,5) by auto
    from run_keeps_collection [OF this, of calls] obtain x where
      x: "x \<in> set (PromptCollections ?s2)" "c_id x = c_id C" "c_userId x = user_id u"
         "c_createdAt x = c_createdAt C"
      by blast
    have "\<exists>x\<in>set ?items. c_id x = c_id C \<and> c_createdAt x = c_createdAt C"
      if "user_id u2 = user_id u"
      using x that by auto
    moreover have "\<forall>x\<in>set ?items. c_userId x = user_id u2"
      by simp
    ultimately show ?thesis
      using l by blast
  qed
  from c(1-4) now later show ?thesis
    by blast
qed

lemma createCollection_coding_request:
  "createCollection (JObj [(''name'', JStr ''Coding'')]) alice ''c9'' 10 demo_db =
     (Inr (Some \<lparr>c_id = ''c9'', c_userId = ''alice'', c_name = ''Coding'', c_description = None,
                 c_icon = None, c_isDefault = False, c_createdAt = 10, c_updatedAt = 10\<rparr>),
      demo_db\<lparr>PromptCollections :=
                [demo_c1, demo_c2,
                 \<lparr>c_id = ''c9'', c_userId = ''alice'', c_name = ''Coding'', c_description = None,
                  c_icon = None, c_isDefault = False, c_createdAt = 10, c_updatedAt = 10\<rparr>],
              statements := [INSERT Collections]\<rparr>)"
  by (simp add: createCollection_def createCollection_schema_def schema_defs
      createCollection_handler_def requireUser_alice store_defs demo_defs)

theorem created_collection_listed_witness:
  "\<exists>C s1.
     createCollection (JObj [(''name'', JStr ''Coding'')]) alice ''c9'' 10 demo_db =
       (Inr (Some C), s1) \<and>
     (\<exists>items. fst (listCollections JUndefined alice s1) = Inr (items, length items) \<and>
              C \<in> set items) \<and>
     (\<exists>items. fst (listCollections JUndefined bob s1) = Inr (items, length items) \<and>
              C \<notin> set items) \<and>
     (\<exists>items.
        fst (listCollections JUndefined alice
               (run [(bob, CreateCollection (JObj [(''name'', JStr ''Other'')]) ''c10'' 11),
                     (alice, UpdateCollection
                               (JObj [(''id'', JStr ''c9''), (''name'', JStr ''Code'')]) 12)]
                    s1)) = Inr (items, length items) \<and>
        (\<exists>x\<in>set items. c_id x = ''c9''))"
proof -
  let ?calls = "[(bob, CreateCollection (JObj [(''name'', JStr ''Other'')]) ''c10'' 11),
                 (alice, UpdateCollection
                           (JObj [(''id'', JStr ''c9''), (''name'', JStr ''Code'')]) 12)]"
  obtain created s1 where
    e: "createCollection (JObj [(''name'', JStr ''Coding'')]) alice ''c9'' 10 demo_db =
          (Inr created, s1)"
    using createCollection_coding_request by blast
  from created_collection_listed [OF e] obtain C u where
    c: "created = Some C" "requireUser alice = Inr u" "c_id C = ''c9''" and
    now: "\<And>raw2 ctx2 u2.
        listCollections_schema raw2 \<noteq> None \<and> requireUser ctx2 = Inr u2 \<Longrightarrow>
        \<exists>items.
           fst (listCollections raw2 ctx2 s1) = Inr (items, length items) \<and>
           (C \<in> set items \<longleftrightarrow> user_id u2 = user_id u) \<and>
           (\<forall>x\<in>set items. c_userId x = user_id u2)" and
    later: "\<And>calls raw2 ctx2 u2.
        listCollections_schema raw2 \<noteq> None \<and> requireUser ctx2 = Inr u2 \<Longrightarrow>
        \<exists>items.
           fst (listCollections raw2 ctx2 (run calls s1)) = Inr (items, length items) \<and>
           (user_id u2 = user_id u \<longrightarrow>
              (\<exists>x\<in>set items. c_id x = c_id C \<and> c_createdAt x = c_createdAt C)) \<and>
           (\<forall>x\<in>set items. c_userId x = user_id u2)"
    by blast
  from c(2) have u: "u = User ''alice''"
    by (simp add: requireUser_alice)
  have sch: "listCollections_schema JUndefined \<noteq> None"
    by (simp add: listCollections_schema_def)
  from now [of JUndefined alice "User ''alice''"] sch
  have a: "\<exists>items. fst (listCollections JUndefined alice s1) = Inr (items, length items) \<and>
                   C \<in> set items"
    unfolding u by (auto simp: requireUser_alice)
  from now [of JUndefined bob "User ''bob''"] sch
  have b: "\<exists>items. fst (listCollections JUndefined bob s1) = Inr (items, length items) \<and>
                   C \<notin> set items"
    unfolding u by (auto simp: requireUser_bob)
  from later [of JUndefined alice "User ''alice''" ?calls] sch
  have d: "\<exists>items. fst (listCollections JUndefined alice (run ?calls s1)) =
                     Inr (items, length items) \<and> (\<exists>x\<in>set items. c_id x = ''c9'')"
    unfolding u c(3) by (auto simp: requireUser_alice)
  from e c(1) a b d show ?thesis
    by blast
qed

subsection \<open>No system template\<close>

lemma createCollection_templates:
  "PromptTemplates (snd (createCollection raw ctx uuid now s)) = PromptTemplates s"
  by (auto simp: createCollection_def createCollection_handler_def insert_collection_def
        insert_row_def
      split: option.splits sum.splits if_splits)

lemma updateCollection_templates:
  "PromptTemplates (snd (updateCollection raw ctx now s)) = PromptTemplates s"
  by (auto simp: updateCollection_def updateCollection_handler_def resolver_defs
        update_collections_def update_where_def
      split: option.splits sum.splits if_splits)

lemma listCollections_templates:
  "PromptTemplates (snd (listCollections raw ctx s)) = PromptTemplates s"
  by (auto simp: listCollections_def listCollections_handler_def select_collections_def
      split: option.splits sum.splits)

lemma listTemplates_templates:
  "PromptTemplates (snd (listTemplates raw ctx s)) = PromptTemplates s"
  by (auto simp: listTemplates_def listTemplates_handler_def select_templates_def Let_def
      split: option.splits sum.splits)

lemma createPromptVariable_templates:
  "PromptTemplates (snd (createPromptVariable raw ctx uuid now s)) = PromptTemplates s"
  by (auto simp: createPromptVariable_def createPromptVariable_handler_def resolver_defs
        insert_variable_def insert_row_def
      split: option.splits sum.splits if_splits)

lemma updatePromptVariable_templates:
  "PromptTemplates (snd (updatePromptVariable raw ctx s)) = PromptTemplates s"
  by (auto simp: updatePromptVariable_def updatePromptVariable_handler_def resolver_defs
        select_variables_def update_variables_def update_where_def
      split: option.splits sum.splits if_splits)

lemma deletePromptVariable_templates:
  "PromptTemplates (snd (deletePromptVariable raw ctx s)) = PromptTemplates s"
  by (auto simp: deletePromptVariable_def deletePromptVariable_handler_def resolver_defs
        delete_variables_def delete_where_def
      split: option.splits sum.splits if_splits)

lemma listPromptVariables_templates:
  "PromptTemplates (snd (listPromptVariables raw ctx s)) = PromptTemplates s"
  by (auto simp: listPromptVariables_def listPromptVariables_handler_def resolver_defs
        select_variables_def
      split: option.splits sum.splits if_splits)

lemma updateTemplate_set_isSystem:
  "t_isSystem (updateTemplate_set input now r) = t_isSystem r"
  by (simp add: updateTemplate_set_def)

lemma createTemplate_outcome:
  "(\<exists>e s'. createTemplate raw ctx uuid now s = (Inl e, s') \<and>
            PromptTemplates s' = PromptTemplates s) \<or>
   (\<exists>row s'. createTemplate raw ctx uuid now s = (Inr (Some row), s') \<and>
              t_isSystem row = False \<and> PromptTemplates s' = PromptTemplates s @ [row])"
proof (cases "createTemplate_schema raw")
  case None
  then show ?thesis
    by (simp add: createTemplate_def)
next
  case (Some input)
  obtain res s' where r: "createTemplate_handler input ctx uuid now s = (res, s')"
    by (cases "createTemplate_handler input ctx uuid now s")
  from createTemplate_handler_outcome [OF r] Some r show ?thesis
    by (auto simp: createTemplate_def)
qed

lemma updateTemplate_templates:
  "PromptTemplates (snd (updateTemplate raw ctx now s)) = PromptTemplates s \<or>
   (\<exists>input. PromptTemplates (snd (updateTemplate raw ctx now s)) =
      map (\<lambda>r. if t_id r = ut_id input then updateTemplate_set input now r else r)
          (PromptTemplates s))"
proof (cases "updateTemplate_schema raw")
  case None
  then show ?thesis
    by (simp add: updateTemplate_def)
next
  case (Some input)
  obtain res s' where r: "updateTemplate_handler input ctx now s = (res, s')"
    by (cases "updateTemplate_handler input ctx now s")
  from updateTemplate_handler_cases [OF r] Some r show ?thesis
    by (auto simp: updateTemplate_def)
qed

lemma store_after_no_system_template:
  assumes "\<forall>r\<in>set (PromptTemplates s). t_isSystem r = False"
  shows "\<forall>r\<in>set (PromptTemplates (store_after ctx c s)). t_isSystem r = False"
proof (cases c)
  case (CreateTemplate raw uuid now)
  from createTemplate_outcome [of raw ctx uuid now s] assms CreateTemplate show ?thesis
    by auto
next
  case (UpdateTemplate raw now)
  from updateTemplate_templates [of raw ctx now s] assms UpdateTemplate show ?thesis
    by (auto simp: updateTemplate_set_isSystem)
qed (use assms in \<open>simp_all add: createCollection_templates updateCollection_templates
       listCollections_templates listTemplates_templates createPromptVariable_templates
       updatePromptVariable_templates deletePromptVariable_templates
       listPromptVariables_templates\<close>)

lemma run_no_system_template:
  "\<forall>r\<in>set (PromptTemplates s). t_isSystem r = False \<Longrightarrow>
   \<forall>r\<in>set (PromptTemplates (run calls s)). t_isSystem r = False"
proof (induction calls arbitrary: s)
  case Nil
  then show ?case by simp
next
  case (Cons a calls)
  obtain ctx c where a: "a = (ctx, c)"
    by (cases a)
  from store_after_no_system_template [OF Cons.prems, of ctx c]
  have "\<forall>r\<in>set (PromptTemplates (run calls (store_after ctx c s))). t_isSystem r = False"
    by (rule Cons.IH)
  with a show ?case by simp
qed

text \<open>
  Claim C6. Whatever the input, createTemplate either fails and leaves the templates
  as they were, or appends exactly one row and returns it, and that row has
  isSystem = false; an isSystem key in the request is not read by the schema. No call
  of the interface makes a system template: from a store without one, no sequence of
  calls reaches a store holding one.
\<close>

theorem createTemplate_isSystem_false:
  "(case createTemplate raw ctx uuid now s of
      (Inl e, s') \<Rightarrow> PromptTemplates s' = PromptTemplates s
    | (Inr result, s') \<Rightarrow>
        (\<exists>row. result = Some row \<and> t_isSystem row = False \<and>
               PromptTemplates s' = PromptTemplates s @ [row])) \<and>
   ((\<forall>r\<in>set (PromptTemplates s). t_isSystem r = False) \<longrightarrow>
    (\<forall>r\<in>set (PromptTemplates (run calls s)). t_isSystem r = False))"
  using createTemplate_outcome [of raw ctx uuid now s] run_no_system_template [of s calls]
  by auto

theorem createTemplate_isSystem_false_witness:
  "(\<exists>row s'. createTemplate
       (JObj [(''name'', JStr ''Explain''), (''promptBody'', JStr ''Explain it''),
              (''collectionId'', JStr ''c1''), (''isSystem'', JBool True)]) alice ''t9'' 10 demo_db =
         (Inr (Some row), s') \<and>
       t_isSystem row = False \<and> PromptTemplates s' = PromptTemplates demo_db @ [row]) \<and>
   \<not> (\<exists>r\<in>set (PromptTemplates
                  (run [(alice, CreateTemplate
                                  (JObj [(''name'', JStr ''Explain''),
                                         (''promptBody'', JStr ''Explain it''),
                                         (''isSystem'', JBool True)]) ''t9'' 10),
                        (alice, UpdateTemplate
                                  (JObj [(''id'', JStr ''t9''), (''name'', JStr ''x'')]) 11)]
                       demo_db)).
         t_isSystem r)"
proof -
  let ?raw = "JObj [(''name'', JStr ''Explain''), (''promptBody'', JStr ''Explain it''),
                    (''collectionId'', JStr ''c1''), (''isSystem'', JBool True)]"
  let ?calls = "[(alice, CreateTemplate
                           (JObj [(''name'', JStr ''Explain''),
                                  (''promptBody'', JStr ''Explain it''),
                                  (''isSystem'', JBool True)]) ''t9'' 10),
                 (alice, UpdateTemplate
                           (JObj [(''id'', JStr ''t9''), (''name'', JStr ''x'')]) 11)]"
  note t = createTemplate_isSystem_false
             [where raw = ?raw and ctx = alice and uuid = "''t9''" and now = 10 and s = demo_db
                and calls = ?calls]
  have clean: "\<forall>r\<in>set (PromptTemplates demo_db). t_isSystem r = False"
    by (simp add: demo_defs)
  from t [THEN conjunct1]
  have a: "\<exists>row s'. createTemplate ?raw alice ''t9'' 10 demo_db = (Inr (Some row), s') \<and>
             t_isSystem row = False \<and> PromptTemplates s' = PromptTemplates demo_db @ [row]"
    unfolding createTemplate_system_request by simp
  from t [THEN conjunct2] clean
  have b: "\<not> (\<exists>r\<in>set (PromptTemplates (run ?calls demo_db)). t_isSystem r)"
    by blast
  from a b show ?thesis
    by (rule conjI)
qed

subsection \<open>Keys and references across calls\<close>

text \<open>
  Unique primary keys and referential integrity are invariants of the interface: every
  call keeps them, whatever its request, caller and outcome.
\<close>

lemma map_key_update:
  "(\<And>r. key (f r) = key r) \<Longrightarrow> map key (map (\<lambda>r. if p r then f r else r) xs) = map key xs"
  by (induction xs) simp_all

lemma map_key_update_comp:
  "(\<And>r. key (f r) = key r) \<Longrightarrow> map (key \<circ> (\<lambda>r. if p r then f r else r)) xs = map key xs"
  by (induction xs) simp_all

lemma updateTemplate_set_id: "t_id (updateTemplate_set input now r) = t_id r"
  by (simp add: updateTemplate_set_def)

lemma createCollection_others:
  "PromptVariables (snd (createCollection raw ctx uuid now s)) = PromptVariables s"
  by (auto simp: createCollection_def createCollection_handler_def insert_collection_def
        insert_row_def
      split: option.splits sum.splits if_splits)

lemma keys_ok_createCollection:
  "keys_ok s \<Longrightarrow> keys_ok (snd (createCollection raw ctx uuid now s))"
  by (auto simp: keys_ok_def createCollection_def createCollection_handler_def
        insert_collection_def insert_row_def
      split: option.splits sum.splits if_splits)

lemma keys_ok_updateCollection:
  "keys_ok s \<Longrightarrow> keys_ok (snd (updateCollection raw ctx now s))"
  by (auto simp: keys_ok_def updateCollection_def updateCollection_handler_def resolver_defs
        update_collections_def update_where_def map_key_update_comp updateCollection_set_keeps
      split: option.splits sum.splits if_splits)

lemma keys_ok_listCollections:
  "keys_ok s \<Longrightarrow> keys_ok (snd (listCollections raw ctx s))"
  by (auto simp: keys_ok_def listCollections_def listCollections_handler_def
        select_collections_def
      split: option.splits sum.splits)

lemma keys_ok_createTemplate:
  "keys_ok s \<Longrightarrow> keys_ok (snd (createTemplate raw ctx uuid now s))"
  by (auto simp: keys_ok_def createTemplate_def createTemplate_handler_def resolver_defs
        insert_template_def insert_row_def
      split: option.splits sum.splits if_splits)

lemma keys_ok_updateTemplate:
  "keys_ok s \<Longrightarrow> keys_ok (snd (updateTemplate raw ctx now s))"
  by (auto simp: keys_ok_def updateTemplate_def updateTemplate_handler_def resolver_defs
        update_templates_def update_where_def map_key_update_comp updateTemplate_set_id
      split: option.splits sum.splits if_splits nullable.splits)

lemma keys_ok_listTemplates:
  "keys_ok s \<Longrightarrow> keys_ok (snd (listTemplates raw ctx s))"
  by (auto simp: keys_ok_def listTemplates_def listTemplates_handler_def select_templates_def
        Let_def
      split: option.splits sum.splits)

lemma keys_ok_createPromptVariable:
  "keys_ok s \<Longrightarrow> keys_ok (snd (createPromptVariable raw ctx uuid now s))"
  by (auto simp: keys_ok_def createPromptVariable_def createPromptVariable_handler_def
        resolver_defs insert_variable_def insert_row_def
      split: option.splits sum.splits if_splits)

lemma keys_ok_updatePromptVariable:
  "keys_ok s \<Longrightarrow> keys_ok (snd (updatePromptVariable raw ctx s))"
  by (auto simp: keys_ok_def updatePromptVariable_def updatePromptVariable_handler_def
        resolver_defs select_variables_def update_variables_def update_where_def
        map_key_update_comp updatePromptVariable_set_keeps
      split: option.splits sum.splits if_splits)

lemma keys_ok_deletePromptVariable:
  "keys_ok s \<Longrightarrow> keys_ok (snd (deletePromptVariable raw ctx s))"
  by (auto simp: keys_ok_def deletePromptVariable_def deletePromptVariable_handler_def
        resolver_defs delete_variables_def delete_where_def distinct_map_filter
      split: option.splits sum.splits if_splits)

lemma keys_ok_listPromptVariables:
  "keys_ok s \<Longrightarrow> keys_ok (snd (listPromptVariables raw ctx s))"
  by (auto simp: keys_ok_def listPromptVariables_def listPromptVariables_handler_def
        resolver_defs select_variables_def
      split: option.splits sum.splits if_splits)

lemma store_after_keys_ok: "keys_ok s \<Longrightarrow> keys_ok (store_after ctx c s)"
  by (cases c)
     (simp_all add: keys_ok_createCollection keys_ok_updateCollection keys_ok_listCollections
        keys_ok_createTemplate keys_ok_updateTemplate keys_ok_listTemplates
        keys_ok_createPromptVariable keys_ok_updatePromptVariable keys_ok_deletePromptVariable
        keys_ok_listPromptVariables)

lemma run_keys_ok: "keys_ok s \<Longrightarrow> keys_ok (run calls s)"
proof (induction calls arbitrary: s)
  case Nil
  then show ?case by simp
next
  case (Cons a calls)
  obtain ctx c where "a = (ctx, c)"
    by (cases a)
  with Cons.IH [OF store_after_keys_ok [OF Cons.prems]] show ?case
    by simp
qed

lemmas ref_defs = references_hold_def collection_exists_def template_exists_def

lemma set_map_key_update:
  "(\<And>r. key (f r) = key r) \<Longrightarrow> key ` (\<lambda>r. if p r then f r else r) ` set xs = key ` set xs"
  using map_key_update [of key f p xs] by (metis list.set_map)

lemma references_hold_createCollection:
  "references_hold s \<Longrightarrow> references_hold (snd (createCollection raw ctx uuid now s))"
  by (auto simp: ref_defs createCollection_def createCollection_handler_def
        insert_collection_def insert_row_def
      split: option.splits sum.splits if_splits)

lemma updateCollection_variables:
  "PromptVariables (snd (updateCollection raw ctx now s)) = PromptVariables s"
  by (auto simp: updateCollection_def updateCollection_handler_def resolver_defs
        update_collections_def update_where_def
      split: option.splits sum.splits if_splits)

lemma updateCollection_ids:
  "map c_id (PromptCollections (snd (updateCollection raw ctx now s))) =
     map c_id (PromptCollections s)"
  using updateCollection_collections [of raw ctx now s]
  by (auto simp: map_key_update_comp updateCollection_set_keeps)

lemma references_hold_updateCollection:
  assumes "references_hold s"
  shows "references_hold (snd (updateCollection raw ctx now s))"
proof -
  have "c_id ` set (PromptCollections (snd (updateCollection raw ctx now s))) =
        c_id ` set (PromptCollections s)"
    using updateCollection_ids [of raw ctx now s, THEN arg_cong, of set] by simp
  with assms show ?thesis
    by (simp add: ref_defs updateCollection_templates updateCollection_variables
        split: option.splits)
qed

lemma updateTemplate_variables:
  "PromptVariables (snd (updateTemplate raw ctx now s)) = PromptVariables s"
  by (auto simp: updateTemplate_def updateTemplate_handler_def resolver_defs
        update_templates_def update_where_def
      split: option.splits sum.splits if_splits nullable.splits)

lemma updateTemplate_ids:
  "map t_id (PromptTemplates (snd (updateTemplate raw ctx now s))) = map t_id (PromptTemplates s)"
  using updateTemplate_templates [of raw ctx now s]
  by (auto simp: map_key_update_comp updateTemplate_set_id)

lemma updateTemplate_set_reference:
  assumes "ut_collectionId input \<noteq> Null"
    and "\<forall>c. ut_collectionId input = Defined c \<longrightarrow> collection_exists (Some c) s"
    and "collection_exists (t_collectionId r) s"
  shows "collection_exists (t_collectionId (updateTemplate_set input now r)) s"
  using assms by (cases "ut_collectionId input") (simp_all add: updateTemplate_set_def)

lemma references_hold_updateTemplate:
  assumes "references_hold s"
  shows "references_hold (snd (updateTemplate raw ctx now s))"
proof -
  let ?s' = "snd (updateTemplate raw ctx now s)"
  have c: "PromptCollections ?s' = PromptCollections s"
    by (rule updateTemplate_collections)
  have v: "PromptVariables ?s' = PromptVariables s"
    by (rule updateTemplate_variables)
  have ids: "t_id ` set (PromptTemplates ?s') = t_id ` set (PromptTemplates s)"
    using updateTemplate_ids [of raw ctx now s, THEN arg_cong, of set] by simp
  have ex: "collection_exists ref ?s' = collection_exists ref s" for ref
    by (simp add: collection_exists_def c split: option.splits)
  have "\<forall>t\<in>set (PromptTemplates ?s'). collection_exists (t_collectionId t) s"
  proof (cases "updateTemplate_schema raw")
    case None
    with assms show ?thesis
      by (simp add: updateTemplate_def references_hold_def)
  next
    case (Some input)
    obtain res s1 where h: "updateTemplate_handler input ctx now s = (res, s1)"
      by (cases "updateTemplate_handler input ctx now s")
    with Some have s1: "?s' = s1"
      by (simp add: updateTemplate_def)
    from updateTemplate_schema_Some [OF Some] have nn: "ut_collectionId input \<noteq> Null"
      by auto
    from updateTemplate_handler_cases [OF h] show ?thesis
    proof
      assume "\<exists>e. res = Inl e \<and> PromptTemplates s1 = PromptTemplates s"
      with assms s1 show ?thesis
        by (auto simp: references_hold_def)
    next
      assume "\<exists>u result. res = Inr result \<and> requireUser ctx = Inr u \<and>
            (\<forall>c. ut_collectionId input = Defined c \<longrightarrow>
               (\<exists>col\<in>set (PromptCollections s). c_id col = c \<and> c_userId col = user_id u) \<and>
               statements s1 =
                 statements s @ [SELECT Templates, SELECT Collections, UPDATE Templates]) \<and>
            PromptTemplates s1 =
              map (\<lambda>r. if t_id r = ut_id input then updateTemplate_set input now r else r)
                  (PromptTemplates s)"
      then have own: "\<forall>c. ut_collectionId input = Defined c \<longrightarrow> collection_exists (Some c) s"
        and tab: "PromptTemplates s1 =
              map (\<lambda>r. if t_id r = ut_id input then updateTemplate_set input now r else r)
                  (PromptTemplates s)"
        by (auto simp: collection_exists_def)
      from assms have old: "\<forall>t\<in>set (PromptTemplates s). collection_exists (t_collectionId t) s"
        by (simp add: references_hold_def)
      show ?thesis
        unfolding s1 tab using old updateTemplate_set_reference [OF nn own]
        by auto
    qed
  qed
  moreover from assms have "\<forall>v\<in>set (PromptVariables s). template_exists (v_templateId v) ?s'"
    by (simp add: references_hold_def template_exists_def ids)
  ultimately show ?thesis
    by (simp add: references_hold_def ex v)
qed

lemma references_hold_listCollections:
  "references_hold s \<Longrightarrow> references_hold (snd (listCollections raw ctx s))"
  by (auto simp: ref_defs listCollections_def listCollections_handler_def
        select_collections_def
      split: option.splits sum.splits)

lemma references_hold_createTemplate:
  "references_hold s \<Longrightarrow> references_hold (snd (createTemplate raw ctx uuid now s))"
  by (auto simp: ref_defs createTemplate_def createTemplate_handler_def resolver_defs
        insert_template_def insert_row_def
      split: option.splits sum.splits if_splits)

lemma references_hold_listTemplates:
  "references_hold s \<Longrightarrow> references_hold (snd (listTemplates raw ctx s))"
  by (auto simp: ref_defs listTemplates_def listTemplates_handler_def select_templates_def
        Let_def
      split: option.splits sum.splits)

lemma references_hold_createPromptVariable:
  "references_hold s \<Longrightarrow> references_hold (snd (createPromptVariable raw ctx uuid now s))"
  by (auto simp: ref_defs createPromptVariable_def createPromptVariable_handler_def
        resolver_defs insert_variable_def insert_row_def
      split: option.splits sum.splits if_splits)

lemma references_hold_updatePromptVariable:
  "references_hold s \<Longrightarrow> references_hold (snd (updatePromptVariable raw ctx s))"
  by (auto simp: ref_defs updatePromptVariable_def updatePromptVariable_handler_def
        resolver_defs select_variables_def update_variables_def update_where_def
        updatePromptVariable_set_keeps
      split: option.splits sum.splits if_splits)

lemma references_hold_deletePromptVariable:
  "references_hold s \<Longrightarrow> references_hold (snd (deletePromptVariable raw ctx s))"
  by (auto simp: ref_defs deletePromptVariable_def deletePromptVariable_handler_def
        resolver_defs delete_variables_def delete_where_def
      split: option.splits sum.splits if_splits)

lemma references_hold_listPromptVariables:
  "references_hold s \<Longrightarrow> references_hold (snd (listPromptVariables raw ctx s))"
  by (auto simp: ref_defs listPromptVariables_def listPromptVariables_handler_def
        resolver_defs select_variables_def
      split: option.splits sum.splits if_splits)

lemma store_after_references_hold:
  "references_hold s \<Longrightarrow> references_hold (store_after ctx c s)"
  by (cases c)
     (simp_all add: references_hold_createCollection references_hold_updateCollection
        references_hold_listCollections references_hold_createTemplate
        references_hold_updateTemplate references_hold_listTemplates
        references_hold_createPromptVariable references_hold_updatePromptVariable
        references_hold_deletePromptVariable references_hold_listPromptVariables)

lemma run_references_hold: "references_hold s \<Longrightarrow> references_hold (run calls s)"
proof (induction calls arbitrary: s)
  case Nil
  then show ?case by simp
next
  case (Cons a calls)
  obtain ctx c where "a = (ctx, c)"
    by (cases a)
  with Cons.IH [OF store_after_references_hold [OF Cons.prems]] show ?case
    by simp
qed

lemma references_hold_demo: "references_hold demo_db"
  by (simp add: ref_defs demo_defs)

subsection \<open>The scenarios of the specification\<close>

lemmas action_defs =
  createCollection_def createCollection_schema_def createCollection_handler_def
  createTemplate_def createTemplate_schema_def createTemplate_handler_def truthy_def
  createPromptVariable_def createPromptVariable_schema_def createPromptVariable_handler_def
  listPromptVariables_def listPromptVariables_schema_def listPromptVariables_handler_def
  deletePromptVariable_def deletePromptVariable_schema_def deletePromptVariable_handler_def
  updateTemplate_def updateTemplate_schema_def updateTemplate_handler_def updateTemplate_set_def
  getOwnedTemplate_def getOwnedCollection_def

text \<open>
  The first scenario: on an empty store alice creates a collection, a template in it
  and a variable of the template. Each call succeeds and adds its row; the collection
  has isDefault = false.
\<close>

lemma scenario_db_tables:
  "PromptCollections scenario_db =
     [\<lparr>c_id = ''c1'', c_userId = ''alice'', c_name = ''Coding'', c_description = None,
       c_icon = None, c_isDefault = False, c_createdAt = 1, c_updatedAt = 1\<rparr>] \<and>
   PromptTemplates scenario_db =
     [\<lparr>t_id = ''t1'', t_collectionId = Some ''c1'', t_userId = ''alice'', t_name = ''Explain'',
       t_description = None, t_modelHint = None, t_promptBody = ''Explain {{topic}}'',
       t_tags = None, t_isFavorite = False, t_isSystem = False, t_createdAt = 2,
       t_updatedAt = 2\<rparr>] \<and>
   PromptVariables scenario_db =
     [\<lparr>v_id = ''v1'', v_templateId = ''t1'', v_name = ''topic'', v_label = None,
       v_description = None, v_inputType = None, v_defaultValue = None, v_optionsJson = None,
       v_orderIndex = None, v_createdAt = 3\<rparr>]"
  by (simp add: scenario_db_def action_defs schema_defs store_defs requireUser_alice empty_db_def)

text \<open>
  Listing the variables of the template then gives one item and total 1, deleting the
  variable succeeds, and the listing after it is empty.
\<close>

lemma scenario_list_delete_list:
  "fst (listPromptVariables (JObj [(''templateId'', JStr ''t1'')]) alice scenario_db) =
     Inr (PromptVariables scenario_db, 1) \<and>
   fst (deletePromptVariable (JObj [(''id'', JStr ''v1''), (''templateId'', JStr ''t1'')])
          alice scenario_db) = Inr () \<and>
   fst (listPromptVariables (JObj [(''templateId'', JStr ''t1'')]) alice
          (snd (deletePromptVariable (JObj [(''id'', JStr ''v1''), (''templateId'', JStr ''t1'')])
                  alice scenario_db))) = Inr ([], 0)"
  by (simp add: scenario_db_def action_defs schema_defs store_defs requireUser_alice empty_db_def)

text \<open>
  The second scenario: bob updates a template of alice. The call fails with FORBIDDEN
  after the lookup, and the tables are as before.
\<close>

lemma scenario_foreign_update_forbidden:
  "updateTemplate (JObj [(''id'', JStr ''t1''), (''name'', JStr ''x'')]) bob 9 demo_db =
     (Inl (ActionError FORBIDDEN ''You do not have access to this template.''),
      issue (SELECT Templates) demo_db)"
  by (simp add: action_defs schema_defs store_defs requireUser_bob demo_defs)

end
